theory Spec2Isabelle
  imports Complex_Main "HOL-Library.Sublist" "HOL-Library.Product_Lexorder" "HOL-Library.Multiset"
begin

section \<open>Strings and Python exceptions\<close>

text \<open>
  A Python string is modelled by its UTF-8 encoding, a \<^typ>\<open>string\<close> of bytes; a character of
  ASCII is one byte below 128. \<open>a in b\<close> on strings is the contiguous-substring test
  \<^const>\<open>sublist\<close>, since a UTF-8 text occurs in another one only at character boundaries.

  \<open>str.lower()\<close> maps \<open>A\<close>..\<open>Z\<close> to \<open>a\<close>..\<open>z\<close> in a text of ASCII. On any other text it is the
  case mapping of the Unicode tables of the Python runtime, which are no part of this
  repository: that mapping is the argument \<open>unicode_lower\<close> of every function that
  lowercases.
\<close>

datatype py_error =
    KeyError | ValueError | ZeroDivisionError
  | FileNotFoundError | FileExistsError | IsADirectoryError | NotADirectoryError
  | PermissionError | UnicodeDecodeError

definition lower_char :: "char \<Rightarrow> char" where
  "lower_char c =
     (let n = (of_char c :: nat) in if 65 \<le> n \<and> n \<le> 90 then char_of (n + 32) else c)"

definition is_ascii :: "string \<Rightarrow> bool" where
  "is_ascii s = list_all (\<lambda>c. (of_char c :: nat) < 128) s"

definition lower :: "(string \<Rightarrow> string) \<Rightarrow> string \<Rightarrow> string" where
  "lower unicode_lower s = (if is_ascii s then map lower_char s else unicode_lower s)"

section \<open>Coverage classifier (analyze-test-coverage.py)\<close>

subsection \<open>\<open>get_complexity\<close>\<close>

definition get_complexity :: "int \<Rightarrow> string" where
  "get_complexity lines =
     (if lines > 300 then ''High''
      else if lines > 150 then ''Medium''
      else ''Low'')"

subsection \<open>\<open>get_priority\<close>\<close>

definition high_patterns :: "string list" where
  "high_patterns =
     [''Client'', ''Page'', ''Form'', ''Modal'', ''Dialog'',
      ''Auth'', ''Payment'', ''Checkout'', ''Dashboard'',
      ''Service'', ''Provider'', ''Hook'']"

definition medium_patterns :: "string list" where
  "medium_patterns =
     [''Settings'', ''Profile'', ''Management'', ''Editor'',
      ''Table'', ''List'', ''Panel'', ''Section'']"

definition business_logic_paths :: "string list" where
  "business_logic_paths = [''dashboard'', ''admin'', ''billing'', ''auth'', ''plan'']"

text \<open>
  The three \<open>for\<close> loops of \<open>get_priority\<close>. Each walks its pattern list in order and leaves
  the function at the first pattern found; \<^const>\<open>True\<close> stands for that early \<open>return\<close>,
  \<^const>\<open>False\<close> for falling out of the loop. The first and the third loop lowercase the
  pattern before the test, the second one tests the pattern as written.
\<close>

fun match_lowered :: "(string \<Rightarrow> string) \<Rightarrow> string list \<Rightarrow> string \<Rightarrow> bool" where
  "match_lowered unicode_lower [] s = False"
| "match_lowered unicode_lower (pattern # rest) s =
     (if sublist (lower unicode_lower pattern) s then True
      else match_lowered unicode_lower rest s)"

fun match_plain :: "string list \<Rightarrow> string \<Rightarrow> bool" where
  "match_plain [] s = False"
| "match_plain (path # rest) s =
     (if sublist path s then True else match_plain rest s)"

definition get_priority :: "(string \<Rightarrow> string) \<Rightarrow> string \<Rightarrow> string \<Rightarrow> string" where
  "get_priority unicode_lower filename filepath =
     (let filename_lower = lower unicode_lower filename;
          filepath_lower = lower unicode_lower filepath
      in if match_lowered unicode_lower high_patterns filename_lower then ''Critical''
         else if match_plain business_logic_paths filepath_lower then ''High''
         else if match_lowered unicode_lower medium_patterns filename_lower then ''Medium''
         else ''Low'')"

section \<open>Directory scanner (analyze-test-coverage.py)\<close>

subsection \<open>Paths and the file tree\<close>

text \<open>
  A path is the string \<open>str(path)\<close> of a normalised absolute POSIX path. The functions below
  are \<open>pathlib\<close>'s \<open>name\<close>, \<open>parent\<close>, \<open>stem\<close>, \<open>suffix\<close>, \<open>/\<close> and \<open>relative_to\<close> on such
  strings; \<open>stem\<close> and \<open>suffix\<close> cut the name at its last dot when that dot is neither the
  first nor the last character of the name, and joining with an absolute right operand gives
  that operand.
\<close>

definition BASEDIR :: string where
  "BASEDIR = ''/Users/aideveloper/ainative-website-nextjs-staging''"

definition path_name :: "string \<Rightarrow> string" where
  "path_name p = rev (takeWhile (\<lambda>c. c \<noteq> CHR ''/'') (rev p))"

definition path_parent :: "string \<Rightarrow> string" where
  "path_parent p =
     (let d = rev (drop 1 (dropWhile (\<lambda>c. c \<noteq> CHR ''/'') (rev p)))
      in if d = [] then ''/'' else d)"

definition path_join :: "string \<Rightarrow> string \<Rightarrow> string" where
  "path_join d c =
     (if prefix ''/'' c then c
      else if d = ''/'' then d @ c
      else d @ ''/'' @ c)"

definition last_dot :: "string \<Rightarrow> nat option" where
  "last_dot name =
     (if CHR ''.'' \<in> set name
      then Some (length name - length (takeWhile (\<lambda>c. c \<noteq> CHR ''.'') (rev name)) - 1)
      else None)"

definition path_stem :: "string \<Rightarrow> string" where
  "path_stem p =
     (let name = path_name p
      in case last_dot name of
           None \<Rightarrow> name
         | Some i \<Rightarrow> if 0 < i \<and> i < length name - 1 then take i name else name)"

definition path_suffix :: "string \<Rightarrow> string" where
  "path_suffix p =
     (let name = path_name p
      in case last_dot name of
           None \<Rightarrow> []
         | Some i \<Rightarrow> if 0 < i \<and> i < length name - 1 then drop i name else [])"

definition relative_to :: "string \<Rightarrow> string \<Rightarrow> py_error + string" where
  "relative_to p base =
     (if p = base then Inr ''.''
      else if prefix (base @ ''/'') p then Inr (drop (length base + 1) p)
      else Inl ValueError)"

text \<open>
  The directories above a path, from the root down: for \<open>/a/b/c\<close> they are \<open>/\<close>, \<open>/a\<close> and
  \<open>/a/b\<close>. \<open>directories_to acc p\<close> walks along \<open>p\<close> with the part already passed in \<open>acc\<close>.
\<close>

fun directories_to :: "string \<Rightarrow> string \<Rightarrow> string list" where
  "directories_to acc [] = []"
| "directories_to acc (c # cs) =
     (if c = CHR ''/''
      then (if acc = [] then ''/'' else acc) # directories_to (acc @ [c]) cs
      else directories_to (acc @ [c]) cs)"

definition ancestors :: "string \<Rightarrow> string list" where
  "ancestors p = directories_to [] p"

text \<open>
  \<open>stat\<close> on a path fails with \<open>EACCES\<close> when a directory above it gives no search
  permission. \<open>Path.exists()\<close> returns \<open>False\<close> for a path that is not there and lets that
  \<open>PermissionError\<close> pass.
\<close>

definition stat_denied :: "(string \<Rightarrow> bool) \<Rightarrow> string \<Rightarrow> bool" where
  "stat_denied no_search p = list_ex no_search (ancestors p)"

text \<open>
  The file tree the scanner reads. \<open>listing\<close> holds every path that exists, in the order a
  directory walk meets them; \<open>text_lines\<close> gives the lines of the files that \<open>open\<close> and
  \<open>readlines\<close> can read as UTF-8, and \<^const>\<open>None\<close> where they raise (a directory, a file
  without read permission, bytes that do not decode); \<open>unsearchable\<close> marks the directories
  without search permission.
\<close>

record file_tree =
  listing :: "string list"
  text_lines :: "string \<Rightarrow> string list option"
  unsearchable :: "string \<Rightarrow> bool"

definition path_exists :: "file_tree \<Rightarrow> string \<Rightarrow> py_error + bool" where
  "path_exists fs p =
     (if stat_denied (unsearchable fs) p then Inl PermissionError
      else Inr (p \<in> set (listing fs)))"

text \<open>\<open>directory.rglob('*' + ext)\<close>: the paths below \<open>directory\<close> whose name ends with \<open>ext\<close>.\<close>

definition rglob :: "file_tree \<Rightarrow> string \<Rightarrow> string \<Rightarrow> string list" where
  "rglob fs directory ext =
     filter (\<lambda>p. prefix (directory @ ''/'') p \<and> suffix ext (path_name p)) (listing fs)"

subsection \<open>\<open>count_lines\<close> and \<open>analyze_directory\<close>\<close>

definition count_lines :: "file_tree \<Rightarrow> string \<Rightarrow> int" where
  "count_lines fs file_path =
     (case text_lines fs file_path of
        Some ls \<Rightarrow> int (length ls)
      | None \<Rightarrow> 0)"

record entry =
  path :: string
  priority :: string
  complexity :: string
  lines :: int
  category :: string

definition skipped_path :: "string \<Rightarrow> bool" where
  "skipped_path file_path =
     (sublist ''__tests__'' file_path \<or> sublist ''node_modules'' file_path \<or>
      sublist ''.next'' file_path)"

definition test_file_of :: "string \<Rightarrow> string \<Rightarrow> string" where
  "test_file_of file_path ext =
     path_join (path_join (path_parent file_path) ''__tests__'')
       (path_stem file_path @ ''.test'' @ ext)"

text \<open>
  The inner loop over the files of one extension and the outer loop over the two
  extensions; \<open>results\<close> is the list being appended to. \<open>test_file.exists()\<close> and
  \<open>relative_to\<close> may raise, which ends the scan with that error. The fields of an entry carry the keys of the source's dictionary,
  so the local variables \<open>lines\<close>, \<open>complexity\<close>, \<open>priority\<close> and \<open>category\<close> are \<open>n\<close>, \<open>cplx\<close>,
  \<open>prio\<close> and \<open>cat\<close> here.
\<close>

fun scan_files ::
  "(string \<Rightarrow> string) \<Rightarrow> file_tree \<Rightarrow> string \<Rightarrow> string \<Rightarrow> string list \<Rightarrow> entry list \<Rightarrow>
   py_error + entry list"
where
  "scan_files unicode_lower fs cat ext [] results = Inr results"
| "scan_files unicode_lower fs cat ext (file_path # rest) results =
     (if skipped_path file_path then scan_files unicode_lower fs cat ext rest results
      else
        let test_file = test_file_of file_path ext
        in case path_exists fs test_file of
             Inl e \<Rightarrow> Inl e
           | Inr True \<Rightarrow> scan_files unicode_lower fs cat ext rest results
           | Inr False \<Rightarrow>
               (let n = count_lines fs file_path;
                    cplx = get_complexity n;
                    prio = get_priority unicode_lower (path_stem file_path) file_path
                in case relative_to file_path BASEDIR of
                     Inl e \<Rightarrow> Inl e
                   | Inr relative_path \<Rightarrow>
                       scan_files unicode_lower fs cat ext rest
                         (results @
                          [\<lparr>path = relative_path, priority = prio, complexity = cplx,
                            lines = n, category = cat\<rparr>])))"

fun scan_exts ::
  "(string \<Rightarrow> string) \<Rightarrow> file_tree \<Rightarrow> string \<Rightarrow> string \<Rightarrow> string list \<Rightarrow> entry list \<Rightarrow>
   py_error + entry list"
where
  "scan_exts unicode_lower fs directory cat [] results = Inr results"
| "scan_exts unicode_lower fs directory cat (ext # exts) results =
     (case scan_files unicode_lower fs cat ext (rglob fs directory ext) results of
        Inl e \<Rightarrow> Inl e
      | Inr results' \<Rightarrow> scan_exts unicode_lower fs directory cat exts results')"

definition analyze_directory ::
  "(string \<Rightarrow> string) \<Rightarrow> file_tree \<Rightarrow> string \<Rightarrow> string \<Rightarrow> py_error + entry list"
where
  "analyze_directory unicode_lower fs directory cat =
     scan_exts unicode_lower fs directory cat [''.tsx'', ''.ts''] []"

section \<open>Report generator (analyze-test-coverage.py)\<close>

subsection \<open>Collecting and sorting the untested files\<close>

text \<open>
  \<open>generate_report\<close> extends \<open>untested\<close> with the result of one \<open>analyze_directory\<close> call per
  directory; which directories there are depends on the tree, so the list of
  (directory, category) pairs is an argument here.
\<close>

fun extend_untested ::
  "(string \<Rightarrow> string) \<Rightarrow> file_tree \<Rightarrow> (string \<times> string) list \<Rightarrow> entry list \<Rightarrow>
   py_error + entry list"
where
  "extend_untested unicode_lower fs [] untested = Inr untested"
| "extend_untested unicode_lower fs ((directory, cat) # rest) untested =
     (case analyze_directory unicode_lower fs directory cat of
        Inl e \<Rightarrow> Inl e
      | Inr results \<Rightarrow> extend_untested unicode_lower fs rest (untested @ results))"

definition priority_order :: "(string \<times> int) list" where
  "priority_order = [(''Critical'', 0), (''High'', 1), (''Medium'', 2), (''Low'', 3)]"

definition complexity_order :: "(string \<times> int) list" where
  "complexity_order = [(''High'', 0), (''Medium'', 1), (''Low'', 2)]"

text \<open>\<open>d[k]\<close> on a dictionary raises \<open>KeyError\<close> for a key that is not there.\<close>

definition dict_get :: "(string \<times> int) list \<Rightarrow> string \<Rightarrow> py_error + int" where
  "dict_get d k = (case map_of d k of None \<Rightarrow> Inl KeyError | Some v \<Rightarrow> Inr v)"

text \<open>The \<open>key=\<close> function of the sort: a triple, compared lexicographically.\<close>

definition sort_key_of :: "entry \<Rightarrow> py_error + (int \<times> int \<times> int)" where
  "sort_key_of x =
     (case dict_get priority_order (priority x) of
        Inl e \<Rightarrow> Inl e
      | Inr p \<Rightarrow>
          (case dict_get complexity_order (complexity x) of
             Inl e \<Rightarrow> Inl e
           | Inr c \<Rightarrow> Inr (p, c, - lines x)))"

text \<open>
  \<open>list.sort(key=...)\<close> first computes the key of every element, in order, and an exception
  of the key function leaves the sort; then it sorts the elements by their keys with a
  stable sort, for which \<^const>\<open>sort_key\<close> stands.
\<close>

fun keyed :: "entry list \<Rightarrow> py_error + ((int \<times> int \<times> int) \<times> entry) list" where
  "keyed [] = Inr []"
| "keyed (x # xs) =
     (case sort_key_of x of
        Inl e \<Rightarrow> Inl e
      | Inr k \<Rightarrow> (case keyed xs of Inl e \<Rightarrow> Inl e | Inr kxs \<Rightarrow> Inr ((k, x) # kxs)))"

definition sort_untested :: "entry list \<Rightarrow> py_error + entry list" where
  "sort_untested untested =
     (case keyed untested of
        Inl e \<Rightarrow> Inl e
      | Inr kxs \<Rightarrow> Inr (map snd (sort_key fst kxs)))"

subsection \<open>Coverage percentages\<close>

text \<open>
  \<open>a / b\<close> on two Python integers raises \<open>ZeroDivisionError\<close> for \<open>b = 0\<close> and is a float
  otherwise. Float arithmetic itself is not modelled: the division \<open>fdiv\<close> and the
  multiplication by an integer \<open>fmul\<close> are arguments. The \<open>else\<close> branch of the source is the
  integer \<open>0\<close>, not a float.
\<close>

datatype 'f number = PyInt int | PyFloat 'f

definition truediv :: "(int \<Rightarrow> int \<Rightarrow> 'f) \<Rightarrow> int \<Rightarrow> int \<Rightarrow> py_error + 'f" where
  "truediv fdiv a b = (if b = 0 then Inl ZeroDivisionError else Inr (fdiv a b))"

definition coverage_pct ::
  "(int \<Rightarrow> int \<Rightarrow> 'f) \<Rightarrow> ('f \<Rightarrow> int \<Rightarrow> 'f) \<Rightarrow> int \<Rightarrow> int \<Rightarrow> py_error + 'f number"
where
  "coverage_pct fdiv fmul n_tests n_files =
     (if n_files > 0
      then (case truediv fdiv n_tests n_files of
              Inl e \<Rightarrow> Inl e
            | Inr q \<Rightarrow> Inr (PyFloat (fmul q 100)))
      else Inr (PyInt 0))"

text \<open>
  The file counts of \<open>generate_report\<close> and the five percentages it prints: the overall one
  and one each for components, app, services and lib, evaluated in that order.
\<close>

record counts =
  total_components :: int
  total_app :: int
  total_lib :: int
  total_services :: int
  total_tests :: int
  total_app_tests :: int
  total_lib_tests :: int
  total_services_tests :: int

definition total_files :: "counts \<Rightarrow> int" where
  "total_files c = total_components c + total_app c + total_lib c + total_services c"

definition total_test_files :: "counts \<Rightarrow> int" where
  "total_test_files c =
     total_tests c + total_app_tests c + total_lib_tests c + total_services_tests c"

fun collect :: "(py_error + 'a) list \<Rightarrow> py_error + 'a list" where
  "collect [] = Inr []"
| "collect (r # rs) =
     (case r of
        Inl e \<Rightarrow> Inl e
      | Inr v \<Rightarrow> (case collect rs of Inl e \<Rightarrow> Inl e | Inr vs \<Rightarrow> Inr (v # vs)))"

definition report_percentages ::
  "(int \<Rightarrow> int \<Rightarrow> 'f) \<Rightarrow> ('f \<Rightarrow> int \<Rightarrow> 'f) \<Rightarrow> counts \<Rightarrow> py_error + 'f number list"
where
  "report_percentages fdiv fmul c =
     collect
       [coverage_pct fdiv fmul (total_test_files c) (total_files c),
        coverage_pct fdiv fmul (total_tests c) (total_components c),
        coverage_pct fdiv fmul (total_app_tests c) (total_app c),
        coverage_pct fdiv fmul (total_services_tests c) (total_services c),
        coverage_pct fdiv fmul (total_lib_tests c) (total_lib c)]"

section \<open>Template synthesizer (generate-test-template.py)\<close>

definition TOP_20_COMPONENTS :: "string list" where
  "TOP_20_COMPONENTS =
     [''app/dev-resources/DevResourcesClient.tsx'',
      ''app/dashboard/agents/AgentsClient.tsx'',
      ''app/design-system-showcase/DesignSystemShowcaseClient.tsx'',
      ''services/QNNApiClient.ts'',
      ''app/dashboard/email/EmailManagementClient.tsx'',
      ''app/ai-kit/AIKitClient.tsx'',
      ''app/dashboard/zerodb/ZeroDBClient.tsx'',
      ''app/api-reference/APIReferenceClient.tsx'',
      ''app/dashboard/load-testing/LoadTestingClient.tsx'',
      ''app/integrations/IntegrationsClient.tsx'',
      ''app/examples/ExamplesClient.tsx'',
      ''app/dashboard/DashboardClient.tsx'',
      ''app/dashboard/api-sandbox/APISandboxClient.tsx'',
      ''app/dashboard/main/MainDashboardClient.tsx'',
      ''app/community/videos/[slug]/VideoDetailClient.tsx'',
      ''app/developer-tools/DeveloperToolsClient.tsx'',
      ''app/dashboard/sessions/SessionsClient.tsx'',
      ''app/dashboard/mcp-hosting/MCPHostingClient.tsx'',
      ''app/demo/progress-indicators/ProgressIndicatorsDemoClient.tsx'',
      ''app/agent-swarm/AgentSwarmClient.tsx'']"

subsection \<open>The two regular expressions of \<open>analyze_component\<close>\<close>

text \<open>
  \<open>re.findall\<close> for the fragment the two patterns use: a pattern is a sequence of literals,
  \<open>\s*\<close>, \<open>\s+\<close>, \<open>\w+\<close> and one captured \<open>(\w+)\<close>. Repetitions are greedy and give back
  characters one at a time; matches are searched from left to right and do not overlap (after
  a match the search goes on behind it, or one character further when the match is empty).
  The character classes are those of a text of ASCII, the only texts the matcher is used
  on.
\<close>

datatype char_class = Space | Word

definition in_class :: "char_class \<Rightarrow> char \<Rightarrow> bool" where
  "in_class k c =
     (let n = (of_char c :: nat)
      in case k of
           Space \<Rightarrow> n = 32 \<or> (9 \<le> n \<and> n \<le> 13) \<or> (28 \<le> n \<and> n \<le> 31)
         | Word \<Rightarrow> (48 \<le> n \<and> n \<le> 57) \<or> (65 \<le> n \<and> n \<le> 90) \<or> n = 95 \<or>
                    (97 \<le> n \<and> n \<le> 122))"

datatype atom = Lit string | Star char_class | Plus char_class | Group_plus char_class

text \<open>All ways to cut a run of class characters off the front of a string, longest first.\<close>

fun runs :: "char_class \<Rightarrow> string \<Rightarrow> (string \<times> string) list" where
  "runs k [] = [([], [])]"
| "runs k (c # cs) =
     (if in_class k c then map (\<lambda>(w, r). (c # w, r)) (runs k cs) @ [([], c # cs)]
      else [([], c # cs)])"

fun first_some :: "('a \<Rightarrow> 'b option) \<Rightarrow> 'a list \<Rightarrow> 'b option" where
  "first_some f [] = None"
| "first_some f (x # xs) = (case f x of Some y \<Rightarrow> Some y | None \<Rightarrow> first_some f xs)"

lemma first_some_cong [fundef_cong]:
  "xs = ys \<Longrightarrow> (\<And>x. x \<in> set ys \<Longrightarrow> f x = g x) \<Longrightarrow> first_some f xs = first_some g ys"
  by (induction ys arbitrary: xs) (auto split: option.splits)

text \<open>
  Matching a pattern at the front of a string: the captured groups and the rest of the
  string after the match.
\<close>

fun match_here :: "atom list \<Rightarrow> string \<Rightarrow> (string list \<times> string) option" where
  "match_here [] s = Some ([], s)"
| "match_here (Lit l # as) s =
     (if prefix l s then match_here as (drop (length l) s) else None)"
| "match_here (Star k # as) s = first_some (\<lambda>(w, r). match_here as r) (runs k s)"
| "match_here (Plus k # as) s =
     first_some (\<lambda>(w, r). if w = [] then None else match_here as r) (runs k s)"
| "match_here (Group_plus k # as) s =
     first_some
       (\<lambda>(w, r). if w = [] then None
                 else map_option (\<lambda>(groups, rest). (w # groups, rest)) (match_here as r))
       (runs k s)"

function findall :: "atom list \<Rightarrow> string \<Rightarrow> string list list" where
  "findall pat [] =
     (case match_here pat [] of
        Some (groups, rest) \<Rightarrow> [groups]
      | None \<Rightarrow> [])"
| "findall pat (c # cs) =
     (case match_here pat (c # cs) of
        Some (groups, rest) \<Rightarrow>
          if length rest < length (c # cs) then groups # findall pat rest
          else groups # findall pat cs
      | None \<Rightarrow> findall pat cs)"
  by pat_completeness auto
termination
  by (relation "measure (\<lambda>(pat, s). length s)") auto

text \<open>\<open>const\s+\[(\w+),\s*set\w+\]\s*=\s*useState\<close>\<close>

definition state_hook_pattern :: "atom list" where
  "state_hook_pattern =
     [Lit ''const'', Plus Space, Lit ''['', Group_plus Word, Lit '','', Star Space,
      Lit ''set'', Plus Word, Lit '']'', Star Space, Lit ''='', Star Space, Lit ''useState'']"

text \<open>\<open>const\s+(\w+)\s*=\s*async\s*\(\<close>\<close>

definition async_func_pattern :: "atom list" where
  "async_func_pattern =
     [Lit ''const'', Plus Space, Group_plus Word, Star Space, Lit ''='', Star Space,
      Lit ''async'', Star Space, Lit ''('']"

text \<open>
  With one group in the pattern, \<open>re.findall\<close> returns the list of that group's texts. On a
  text outside ASCII the classes \<open>\s\<close> and \<open>\w\<close> follow the Unicode tables of the runtime;
  what \<open>re.findall\<close> returns there is the argument \<open>unicode_findall\<close>.
\<close>

definition findall_group ::
  "(atom list \<Rightarrow> string \<Rightarrow> string list) \<Rightarrow> atom list \<Rightarrow> string \<Rightarrow> string list"
where
  "findall_group unicode_findall pat s =
     (if is_ascii s then concat (findall pat s) else unicode_findall pat s)"

subsection \<open>The text blocks of the skeleton\<close>

text \<open>
  The string literals that \<open>generate_test_template\<close> appends, one definition per literal, in
  the order of the source; the arguments are the values the f-string interpolates. Every
  literal ends with a line break, so each is given as the list of its lines, and its text
  is \<open>unlines\<close> of that list.
\<close>

definition unlines :: "string list \<Rightarrow> string" where
  "unlines ls = concat (map (\<lambda>l. l @ [CHR 0x0A]) ls)"

definition header_lines :: "string \<Rightarrow> string \<Rightarrow> string list" where
  "header_lines component_name relative_import =
     [''import { render, screen, waitFor, fireEvent } from '@testing-library/react';'',
      ''import userEvent from '@testing-library/user-event';'',
      ''import '' @ component_name @ '' from '' @ [CHR 0x27] @ relative_import @ ''';'',
      '''',
      ''// Mock dependencies'',
      ''jest.mock('next/navigation', () => ({'',
      ''  useRouter: () => ({'',
      ''    push: jest.fn(),'',
      ''    replace: jest.fn(),'',
      ''    prefetch: jest.fn(),'',
      ''  }),'',
      ''  useSearchParams: () => ({'',
      ''    get: jest.fn(),'',
      ''  }),'',
      ''  usePathname: () => '/test-path','',
      ''}));'',
      '''',
      ''jest.mock('next-auth/react', () => ({'',
      ''  useSession: () => ({'',
      ''    data: {'',
      ''      user: { id: '1', name: 'Test User', email: 'test@example.com' },'',
      ''      expires: '2025-12-31','',
      ''    },'',
      ''    status: 'authenticated','',
      ''  }),'',
      ''  signIn: jest.fn(),'',
      ''  signOut: jest.fn(),'',
      ''}));'',
      '''',
      ''// Mock API calls'',
      ''global.fetch = jest.fn(() =>'',
      ''  Promise.resolve({'',
      ''    ok: true,'',
      ''    json: () => Promise.resolve({ data: {} }),'',
      ''  })) as jest.Mock'',
      '');'',
      '''',
      ''describe('' @ [CHR 0x27] @ component_name @ ''', () => {'',
      ''  beforeEach(() => {'',
      ''    jest.clearAllMocks();'',
      ''  });'',
      '''',
      ''  afterEach(() => {'',
      ''    jest.restoreAllMocks();'',
      ''  });'',
      '''',
      ''  describe('Rendering', () => {'',
      ''    it('should render without crashing', () => {'',
      ''      // Given'',
      ''      const { container } = render(<'' @ component_name @ '' />);'',
      '''',
      ''      // Then'',
      ''      expect(container).toBeInTheDocument();'',
      ''    });'',
      '''',
      ''    it('should display loading state initially', async () => {'',
      ''      // Given'',
      ''      render(<'' @ component_name @ '' />);'',
      '''',
      ''      // Then - Check for loading indicators'',
      ''      // expect(screen.getByTestId('loading-spinner')).toBeInTheDocument();'',
      ''    });'',
      ''  });'',
      '''']"

definition state_open_lines :: "string list" where
  "state_open_lines =
     [''  describe('State Management', () => {'']"

definition state_case_lines :: "string \<Rightarrow> string \<Rightarrow> string list" where
  "state_case_lines state_var component_name =
     [''    it('should manage '' @ state_var @ '' state', async () => {'',
      ''      // Given'',
      ''      render(<'' @ component_name @ '' />);'',
      '''',
      ''      // When'',
      ''      // Interact with component to change '' @ state_var,
      '''',
      ''      // Then'',
      ''      // expect(...).toBe(expectedValue);'',
      ''    });'',
      '''']"

definition state_close_lines :: "string list" where
  "state_close_lines =
     [''  });'',
      '''']"

definition form_handling_lines :: "string \<Rightarrow> string list" where
  "form_handling_lines component_name =
     [''  describe('Form Handling', () => {'',
      ''    it('should handle form submission', async () => {'',
      ''      // Given'',
      ''      const user = userEvent.setup();'',
      ''      render(<'' @ component_name @ '' />);'',
      '''',
      ''      // When'',
      ''      // Fill out form fields'',
      ''      // const submitButton = screen.getByRole('button', { name: /submit/i });'',
      ''      // await user.click(submitButton);'',
      '''',
      ''      // Then'',
      ''      // expect(mockSubmitHandler).toHaveBeenCalled();'',
      ''    });'',
      '''',
      ''    it('should validate form fields', async () => {'',
      ''      // Given'',
      ''      const user = userEvent.setup();'',
      ''      render(<'' @ component_name @ '' />);'',
      '''',
      ''      // When'',
      ''      // Submit form with invalid data'',
      ''      // const submitButton = screen.getByRole('button', { name: /submit/i });'',
      ''      // await user.click(submitButton);'',
      '''',
      ''      // Then'',
      ''      // expect(screen.getByText(/validation error/i)).toBeInTheDocument();'',
      ''    });'',
      '''',
      ''    it('should display error message on submission failure', async () => {'',
      ''      // Given'',
      ''      (global.fetch as jest.Mock).mockRejectedValueOnce(new Error('API Error'));'',
      ''      const user = userEvent.setup();'',
      ''      render(<'' @ component_name @ '' />);'',
      '''',
      ''      // When'',
      ''      // Submit form'',
      ''      // await user.click(screen.getByRole('button', { name: /submit/i }));'',
      '''',
      ''      // Then'',
      ''      await waitFor(() => {'',
      ''        // expect(screen.getByText(/error/i)).toBeInTheDocument();'',
      ''      });'',
      ''    });'',
      ''  });'',
      '''']"

definition api_integration_lines :: "string \<Rightarrow> string list" where
  "api_integration_lines component_name =
     [''  describe('API Integration', () => {'',
      ''    it('should fetch data on mount', async () => {'',
      ''      // Given'',
      ''      const mockData = { id: 1, name: 'Test Data' };'',
      ''      (global.fetch as jest.Mock).mockResolvedValueOnce({'',
      ''        ok: true,'',
      ''        json: async () => ({ data: mockData }),'',
      ''      });'',
      '''',
      ''      // When'',
      ''      render(<'' @ component_name @ '' />);'',
      '''',
      ''      // Then'',
      ''      await waitFor(() => {'',
      ''        expect(global.fetch).toHaveBeenCalled();'',
      ''      });'',
      ''    });'',
      '''',
      ''    it('should handle API errors gracefully', async () => {'',
      ''      // Given'',
      ''      (global.fetch as jest.Mock).mockRejectedValueOnce(new Error('Network error'));'',
      '''',
      ''      // When'',
      ''      render(<'' @ component_name @ '' />);'',
      '''',
      ''      // Then'',
      ''      await waitFor(() => {'',
      ''        // expect(screen.getByText(/error/i)).toBeInTheDocument();'',
      ''      });'',
      ''    });'',
      '''',
      ''    it('should retry failed API calls', async () => {'',
      ''      // Given'',
      ''      (global.fetch as jest.Mock)'',
      ''        .mockRejectedValueOnce(new Error('Network error'))'',
      ''        .mockResolvedValueOnce({'',
      ''          ok: true,'',
      ''          json: async () => ({ data: {} }),'',
      ''        });'',
      '''',
      ''      // When'',
      ''      render(<'' @ component_name @ '' />);'',
      '''',
      ''      // Then - Implement retry logic test'',
      ''    });'',
      ''  });'',
      '''']"

definition data_mutations_lines :: "string \<Rightarrow> string list" where
  "data_mutations_lines component_name =
     [''  describe('Data Mutations', () => {'',
      ''    it('should create new item successfully', async () => {'',
      ''      // Given'',
      ''      const user = userEvent.setup();'',
      ''      (global.fetch as jest.Mock).mockResolvedValueOnce({'',
      ''        ok: true,'',
      ''        json: async () => ({ data: { id: '1', created: true } }),'',
      ''      });'',
      '''',
      ''      render(<'' @ component_name @ '' />);'',
      '''',
      ''      // When'',
      ''      // Trigger create action'',
      ''      // await user.click(screen.getByRole('button', { name: /create/i }));'',
      '''',
      ''      // Then'',
      ''      await waitFor(() => {'',
      ''        expect(global.fetch).toHaveBeenCalledWith('',
      ''          expect.any(String),'',
      ''          expect.objectContaining({ method: 'POST' })'',
      ''        );'',
      ''      });'',
      ''    });'',
      '''',
      ''    it('should update existing item', async () => {'',
      ''      // Given'',
      ''      const user = userEvent.setup();'',
      ''      render(<'' @ component_name @ '' />);'',
      '''',
      ''      // When'',
      ''      // Trigger update action'',
      '''',
      ''      // Then'',
      ''      // expect(mockUpdateHandler).toHaveBeenCalled();'',
      ''    });'',
      '''',
      ''    it('should delete item with confirmation', async () => {'',
      ''      // Given'',
      ''      const user = userEvent.setup();'',
      ''      render(<'' @ component_name @ '' />);'',
      '''',
      ''      // When'',
      ''      // Click delete button'',
      ''      // Confirm deletion'',
      '''',
      ''      // Then'',
      ''      // expect(mockDeleteHandler).toHaveBeenCalled();'',
      ''    });'',
      ''  });'',
      '''']"

definition user_interactions_lines :: "string \<Rightarrow> string list" where
  "user_interactions_lines component_name =
     [''  describe('User Interactions', () => {'',
      ''    it('should handle button clicks', async () => {'',
      ''      // Given'',
      ''      const user = userEvent.setup();'',
      ''      render(<'' @ component_name @ '' />);'',
      '''',
      ''      // When'',
      ''      // const button = screen.getByRole('button', { name: /action/i });'',
      ''      // await user.click(button);'',
      '''',
      ''      // Then'',
      ''      // expect(mockHandler).toHaveBeenCalled();'',
      ''    });'',
      '''',
      ''    it('should handle keyboard navigation', async () => {'',
      ''      // Given'',
      ''      const user = userEvent.setup();'',
      ''      render(<'' @ component_name @ '' />);'',
      '''',
      ''      // When'',
      ''      // await user.keyboard('{Tab}');'',
      '''',
      ''      // Then'',
      ''      // expect(document.activeElement).toHaveFocus();'',
      ''    });'',
      ''  });'',
      '''']"

definition accessibility_lines :: "string \<Rightarrow> string list" where
  "accessibility_lines component_name =
     [''  describe('Accessibility', () => {'',
      ''    it('should have proper ARIA labels', () => {'',
      ''      // Given'',
      ''      render(<'' @ component_name @ '' />);'',
      '''',
      ''      // Then'',
      ''      // Check for ARIA attributes'',
      ''      // expect(screen.getByRole('button')).toHaveAccessibleName();'',
      ''    });'',
      '''',
      ''    it('should support keyboard navigation', async () => {'',
      ''      // Given'',
      ''      const user = userEvent.setup();'',
      ''      render(<'' @ component_name @ '' />);'',
      '''',
      ''      // When'',
      ''      await user.tab();'',
      '''',
      ''      // Then'',
      ''      // expect(document.activeElement).toHaveAttribute('tabindex', '0');'',
      ''    });'',
      '''',
      ''    it('should announce dynamic content changes', async () => {'',
      ''      // Given'',
      ''      render(<'' @ component_name @ '' />);'',
      '''',
      ''      // Then'',
      ''      // Check for live regions'',
      ''      // expect(screen.getByRole('status')).toBeInTheDocument();'',
      ''    });'',
      ''  });'',
      '''']"

definition error_handling_lines :: "string \<Rightarrow> string list" where
  "error_handling_lines component_name =
     [''  describe('Error Handling', () => {'',
      ''    it('should display error boundary on component crash', () => {'',
      ''      // Given'',
      ''      const consoleError = jest.spyOn(console, 'error').mockImplementation(() => {});'',
      '''',
      ''      // When/Then'',
      ''      // Test error boundary by forcing error'',
      ''      consoleError.mockRestore();'',
      ''    });'',
      '''',
      ''    it('should recover from errors', async () => {'',
      ''      // Given'',
      ''      render(<'' @ component_name @ '' />);'',
      '''',
      ''      // When'',
      ''      // Trigger error and recovery'',
      '''',
      ''      // Then'',
      ''      // expect(screen.getByText(/recovered/i)).toBeInTheDocument();'',
      ''    });'',
      ''  });'',
      '''']"

definition edge_cases_lines :: "string \<Rightarrow> string list" where
  "edge_cases_lines component_name =
     [''  describe('Edge Cases', () => {'',
      ''    it('should handle null props gracefully', () => {'',
      ''      // Given/When'',
      ''      const { container } = render(<'' @ component_name @ '' />);'',
      '''',
      ''      // Then'',
      ''      expect(container).toBeInTheDocument();'',
      ''    });'',
      '''',
      ''    it('should handle empty data arrays', async () => {'',
      ''      // Given'',
      ''      (global.fetch as jest.Mock).mockResolvedValueOnce({'',
      ''        ok: true,'',
      ''        json: async () => ({ data: [] }),'',
      ''      });'',
      '''',
      ''      // When'',
      ''      render(<'' @ component_name @ '' />);'',
      '''',
      ''      // Then'',
      ''      await waitFor(() => {'',
      ''        // expect(screen.getByText(/no data/i)).toBeInTheDocument();'',
      ''      });'',
      ''    });'',
      '''',
      ''    it('should handle very large datasets', async () => {'',
      ''      // Given'',
      ''      const largeDataset = Array.from({ length: 1000 }, (_, i) => ({ id: i }));'',
      ''      (global.fetch as jest.Mock).mockResolvedValueOnce({'',
      ''        ok: true,'',
      ''        json: async () => ({ data: largeDataset }),'',
      ''      });'',
      '''',
      ''      // When'',
      ''      render(<'' @ component_name @ '' />);'',
      '''',
      ''      // Then'',
      ''      await waitFor(() => {'',
      ''        expect(global.fetch).toHaveBeenCalled();'',
      ''      });'',
      ''    });'',
      '''',
      ''    it('should handle concurrent updates', async () => {'',
      ''      // Given'',
      ''      render(<'' @ component_name @ '' />);'',
      '''',
      ''      // When'',
      ''      // Trigger multiple concurrent updates'',
      '''',
      ''      // Then'',
      ''      // Verify state is consistent'',
      ''    });'',
      ''  });'',
      ''});'']"

text \<open>
  The skeleton is built by appending blocks. \<open>block\<close> names the literal that was appended and
  carries its interpolated values; \<open>block_text\<close> is its text.
\<close>

datatype block =
    Header string string
  | StateOpen
  | StateCase string string
  | StateClose
  | FormHandling string
  | ApiIntegration string
  | DataMutations string
  | UserInteractions string
  | Accessibility string
  | ErrorHandling string
  | EdgeCases string

fun block_lines :: "block \<Rightarrow> string list" where
  "block_lines (Header component_name relative_import) =
     header_lines component_name relative_import"
| "block_lines StateOpen = state_open_lines"
| "block_lines (StateCase state_var component_name) =
     state_case_lines state_var component_name"
| "block_lines StateClose = state_close_lines"
| "block_lines (FormHandling component_name) = form_handling_lines component_name"
| "block_lines (ApiIntegration component_name) = api_integration_lines component_name"
| "block_lines (DataMutations component_name) = data_mutations_lines component_name"
| "block_lines (UserInteractions component_name) = user_interactions_lines component_name"
| "block_lines (Accessibility component_name) = accessibility_lines component_name"
| "block_lines (ErrorHandling component_name) = error_handling_lines component_name"
| "block_lines (EdgeCases component_name) = edge_cases_lines component_name"

definition block_text :: "block \<Rightarrow> string" where
  "block_text b = unlines (block_lines b)"

subsection \<open>\<open>analyze_component\<close>\<close>

text \<open>
  The files the synthesizer works on. A path holds a directory, a file with its text, or a
  file whose \<open>open\<close> or \<open>read\<close> raises the given exception; \<open>read_only\<close> marks the directories
  in which creating an entry raises \<open>PermissionError\<close>, \<open>no_search\<close> the directories without
  search permission: every system call on a path below one of them fails with \<open>EACCES\<close>.
\<close>

datatype node = Directory | File string | Unreadable py_error

record disk =
  nodes :: "string \<Rightarrow> node option"
  read_only :: "string \<Rightarrow> bool"
  no_search :: "string \<Rightarrow> bool"

text \<open>\<open>Path.exists()\<close>: \<open>False\<close> for a missing path, \<open>PermissionError\<close> when \<open>stat\<close> is denied.\<close>

definition exists_on :: "disk \<Rightarrow> string \<Rightarrow> py_error + bool" where
  "exists_on fs p =
     (if stat_denied (no_search fs) p then Inl PermissionError
      else Inr (nodes fs p \<noteq> None))"

definition read_text :: "disk \<Rightarrow> string \<Rightarrow> py_error + string" where
  "read_text fs p =
     (if stat_denied (no_search fs) p then Inl PermissionError
      else case nodes fs p of
             None \<Rightarrow> Inl FileNotFoundError
           | Some Directory \<Rightarrow> Inl IsADirectoryError
           | Some (Unreadable e) \<Rightarrow> Inl e
           | Some (File content) \<Rightarrow> Inr content)"

text \<open>What the scripts print, one constructor per message.\<close>

datatype message =
    Banner
  | Processing nat string
  | ComponentNotFound string
  | ErrorAnalyzing string py_error
  | TestFileExists string
  | CreatedTestFile string
  | ErrorMessage py_error
  | Summary int int int

record info =
  component_name :: string
  is_client :: bool
  state_hooks :: "string list"
  async_funcs :: "string list"
  has_form :: bool
  api_calls :: bool
  has_mutations :: bool

text \<open>The body of the \<open>try\<close> block, for a file with the given path and text.\<close>

definition inspect ::
  "(atom list \<Rightarrow> string \<Rightarrow> string list) \<Rightarrow> string \<Rightarrow> string \<Rightarrow> info"
where
  "inspect unicode_findall file_path content =
     \<lparr>component_name = path_stem file_path,
      is_client = (sublist ([CHR 0x27] @ ''use client'' @ [CHR 0x27]) content \<or>
                   sublist ([CHR 0x22] @ ''use client'' @ [CHR 0x22]) content),
      state_hooks = take 5 (findall_group unicode_findall state_hook_pattern content),
      async_funcs = take 5 (findall_group unicode_findall async_func_pattern content),
      has_form = (sublist ''onSubmit'' content \<or> sublist ''<form'' content),
      api_calls = (sublist ''fetch('' content \<or> sublist ''axios'' content \<or>
                   sublist ''.get('' content \<or> sublist ''.post('' content),
      has_mutations =
        list_ex (\<lambda>word. sublist word content)
          [''useMutation'', ''mutate'', ''onCreate'', ''onUpdate'', ''onDelete'']\<rparr>"

definition analyze_component ::
  "(atom list \<Rightarrow> string \<Rightarrow> string list) \<Rightarrow> disk \<Rightarrow> string \<Rightarrow> info option \<times> message list"
where
  "analyze_component unicode_findall fs file_path =
     (case read_text fs file_path of
        Inr content \<Rightarrow> (Some (inspect unicode_findall file_path content), [])
      | Inl e \<Rightarrow> (None, [ErrorAnalyzing file_path e]))"

subsection \<open>\<open>generate_test_template\<close>\<close>

text \<open>
  \<open>test_content\<close> as the list of the blocks appended so far; the local variable
  \<open>component_name\<close> of the source is \<open>name\<close> here.
\<close>

definition template_blocks :: "string \<Rightarrow> info \<Rightarrow> block list" where
  "template_blocks component_path info =
     (let name = component_name info;
          is_tsx = (path_suffix component_path = ''.tsx'');
          relative_import = ''../'' @ name;
          test_content = [Header name relative_import];
          test_content =
            (if state_hooks info \<noteq> []
             then test_content @ [StateOpen] @
                    map (\<lambda>state_var. StateCase state_var name) (take 3 (state_hooks info)) @
                    [StateClose]
             else test_content);
          test_content =
            (if has_form info then test_content @ [FormHandling name] else test_content);
          test_content =
            (if api_calls info then test_content @ [ApiIntegration name] else test_content);
          test_content =
            (if has_mutations info then test_content @ [DataMutations name] else test_content);
          test_content = test_content @ [UserInteractions name];
          test_content = test_content @ [Accessibility name];
          test_content = test_content @ [ErrorHandling name];
          test_content = test_content @ [EdgeCases name]
      in test_content)"

definition generate_test_template :: "string \<Rightarrow> info \<Rightarrow> string" where
  "generate_test_template component_path info =
     concat (map block_text (template_blocks component_path info))"

subsection \<open>\<open>create_test_file\<close> and \<open>main\<close>\<close>

text \<open>
  \<open>Path.mkdir(exist_ok=True)\<close>, without \<open>parents\<close>: an error of \<open>os.mkdir\<close> is passed on unless
  the path is a directory already.
\<close>

definition mkdir_exist_ok :: "disk \<Rightarrow> string \<Rightarrow> py_error + disk" where
  "mkdir_exist_ok fs d =
     (if stat_denied (no_search fs) d then Inl PermissionError
      else case nodes fs d of
             Some Directory \<Rightarrow> Inr fs
           | Some (File content) \<Rightarrow> Inl FileExistsError
           | Some (Unreadable e) \<Rightarrow> Inl FileExistsError
           | None \<Rightarrow>
               (case nodes fs (path_parent d) of
                  None \<Rightarrow> Inl FileNotFoundError
                | Some Directory \<Rightarrow>
                    if read_only fs (path_parent d) then Inl PermissionError
                    else Inr (fs\<lparr>nodes := (nodes fs)(d \<mapsto> Directory)\<rparr>)
                | Some (File content) \<Rightarrow> Inl NotADirectoryError
                | Some (Unreadable e) \<Rightarrow> Inl NotADirectoryError))"

text \<open>
  \<open>open(p, 'w')\<close> followed by \<open>write\<close>: an existing file is replaced, a new one is created in
  its directory.
\<close>

definition write_text :: "disk \<Rightarrow> string \<Rightarrow> string \<Rightarrow> py_error + disk" where
  "write_text fs p content =
     (if stat_denied (no_search fs) p then Inl PermissionError
      else case nodes fs p of
             Some Directory \<Rightarrow> Inl IsADirectoryError
           | Some (File old) \<Rightarrow> Inr (fs\<lparr>nodes := (nodes fs)(p \<mapsto> File content)\<rparr>)
           | Some (Unreadable e) \<Rightarrow> Inr (fs\<lparr>nodes := (nodes fs)(p \<mapsto> File content)\<rparr>)
           | None \<Rightarrow>
               (case nodes fs (path_parent p) of
                  None \<Rightarrow> Inl FileNotFoundError
                | Some Directory \<Rightarrow>
                    if read_only fs (path_parent p) then Inl PermissionError
                    else Inr (fs\<lparr>nodes := (nodes fs)(p \<mapsto> File content)\<rparr>)
                | Some (File old) \<Rightarrow> Inl NotADirectoryError
                | Some (Unreadable e) \<Rightarrow> Inl NotADirectoryError))"

text \<open>
  The result of \<open>create_test_file\<close>: the returned boolean or the exception that leaves the
  function, the files afterwards, and the messages printed.
\<close>

definition create_test_file ::
  "(atom list \<Rightarrow> string \<Rightarrow> string list) \<Rightarrow> disk \<Rightarrow> string \<Rightarrow>
   (py_error + bool) \<times> disk \<times> message list"
where
  "create_test_file unicode_findall fs component_path_str =
     (let component_path = path_join BASEDIR component_path_str
      in case exists_on fs component_path of
           Inl e \<Rightarrow> (Inl e, fs, [])
         | Inr False \<Rightarrow> (Inr False, fs, [ComponentNotFound component_path])
         | Inr True \<Rightarrow>
             (case analyze_component unicode_findall fs component_path of
                (None, out) \<Rightarrow> (Inr False, fs, out)
              | (Some info, out) \<Rightarrow>
                  let test_dir = path_join (path_parent component_path) ''__tests__''
                  in case mkdir_exist_ok fs test_dir of
                       Inl e \<Rightarrow> (Inl e, fs, out)
                     | Inr fs1 \<Rightarrow>
                         let test_file_name =
                               path_stem component_path @ ''.test'' @
                               path_suffix component_path;
                             test_file_path = path_join test_dir test_file_name
                         in case exists_on fs1 test_file_path of
                              Inl e \<Rightarrow> (Inl e, fs1, out)
                            | Inr True \<Rightarrow>
                                (Inr False, fs1, out @ [TestFileExists test_file_path])
                            | Inr False \<Rightarrow>
                                let test_content =
                                      generate_test_template component_path info
                                in case write_text fs1 test_file_path test_content of
                                     Inl e \<Rightarrow> (Inl e, fs1, out)
                                   | Inr fs2 \<Rightarrow>
                                       (Inr True, fs2,
                                        out @ [CreatedTestFile test_file_path])))"

record counters =
  created :: int
  skipped :: int
  errors :: int

type_synonym run_state = "disk \<times> counters \<times> message list"

text \<open>One round of the loop of \<open>main\<close>, for the \<open>i\<close>-th path of the list.\<close>

fun process_item ::
  "(atom list \<Rightarrow> string \<Rightarrow> string list) \<Rightarrow> nat \<times> string \<Rightarrow> run_state \<Rightarrow> run_state"
where
  "process_item unicode_findall (i, component_path) (fs, c, out) =
     (case create_test_file unicode_findall fs component_path of
        (Inr True, fs', msgs) \<Rightarrow>
          (fs', c\<lparr>created := created c + 1\<rparr>, out @ [Processing i component_path] @ msgs)
      | (Inr False, fs', msgs) \<Rightarrow>
          (fs', c\<lparr>skipped := skipped c + 1\<rparr>, out @ [Processing i component_path] @ msgs)
      | (Inl e, fs', msgs) \<Rightarrow>
          (fs', c\<lparr>errors := errors c + 1\<rparr>,
           out @ [Processing i component_path] @ msgs @ [ErrorMessage e]))"

fun main_loop ::
  "(atom list \<Rightarrow> string \<Rightarrow> string list) \<Rightarrow> (nat \<times> string) list \<Rightarrow> run_state \<Rightarrow> run_state"
where
  "main_loop unicode_findall [] st = st"
| "main_loop unicode_findall (item # rest) st =
     main_loop unicode_findall rest (process_item unicode_findall item st)"

definition main :: "(atom list \<Rightarrow> string \<Rightarrow> string list) \<Rightarrow> disk \<Rightarrow> run_state" where
  "main unicode_findall fs =
     (case main_loop unicode_findall (enumerate 1 TOP_20_COMPONENTS)
             (fs, \<lparr>created = 0, skipped = 0, errors = 0\<rparr>, [Banner]) of
        (fs', c, out) \<Rightarrow> (fs', c, out @ [Summary (created c) (skipped c) (errors c)]))"

subsection \<open>The rules of the classifier, as the specification words them\<close>

text \<open>
  Containing a pattern without regard to case, said without \<open>lower\<close>: two characters agree
  when they are equal or one is a capital letter \<open>A\<close>..\<open>Z\<close> and the other the small letter, 32
  code points later; \<open>contains_ci s pat\<close> holds when \<open>pat\<close> agrees, character by character,
  with a piece of \<open>s\<close>. That is the meaning for a text of ASCII. For any other text it is that
  the lowercase form of the text, as the Unicode tables give it, contains the small letters
  of the pattern.
\<close>

definition eq_ci :: "char \<Rightarrow> char \<Rightarrow> bool" where
  "eq_ci c d \<longleftrightarrow>
     c = d \<or>
     (let m = (of_char c :: nat); n = (of_char d :: nat)
      in (65 \<le> m \<and> m \<le> 90 \<and> n = m + 32) \<or> (65 \<le> n \<and> n \<le> 90 \<and> m = n + 32))"

fun prefix_ci :: "string \<Rightarrow> string \<Rightarrow> bool" where
  "prefix_ci [] s = True"
| "prefix_ci (p # ps) [] = False"
| "prefix_ci (p # ps) (c # cs) = (eq_ci p c \<and> prefix_ci ps cs)"

fun contains_ci :: "string \<Rightarrow> string \<Rightarrow> bool" where
  "contains_ci [] pat = prefix_ci pat []"
| "contains_ci (c # cs) pat = (prefix_ci pat (c # cs) \<or> contains_ci cs pat)"

definition contains_ignoring_case :: "(string \<Rightarrow> string) \<Rightarrow> string \<Rightarrow> string \<Rightarrow> bool" where
  "contains_ignoring_case unicode_lower s pat =
     (if is_ascii s then contains_ci s pat
      else sublist (map lower_char pat) (unicode_lower s))"

definition has_critical_substring :: "(string \<Rightarrow> string) \<Rightarrow> string \<Rightarrow> bool" where
  "has_critical_substring unicode_lower filename =
     (\<exists>pat \<in> {''Client'', ''Page'', ''Form'', ''Modal'', ''Dialog'', ''Auth'', ''Payment'',
               ''Checkout'', ''Dashboard'', ''Service'', ''Provider'', ''Hook''}.
        contains_ignoring_case unicode_lower filename pat)"

definition has_business_substring :: "(string \<Rightarrow> string) \<Rightarrow> string \<Rightarrow> bool" where
  "has_business_substring unicode_lower filepath =
     (\<exists>seg \<in> {''dashboard'', ''admin'', ''billing'', ''auth'', ''plan''}.
        contains_ignoring_case unicode_lower filepath seg)"

definition has_medium_substring :: "(string \<Rightarrow> string) \<Rightarrow> string \<Rightarrow> bool" where
  "has_medium_substring unicode_lower filename =
     (\<exists>pat \<in> {''Settings'', ''Profile'', ''Management'', ''Editor'', ''Table'', ''List'',
               ''Panel'', ''Section''}.
        contains_ignoring_case unicode_lower filename pat)"

text \<open>
  A filename outside ASCII: \<open>Hoo\<close> followed by the Kelvin sign U+212A, whose lowercase is the
  letter \<open>k\<close>; \<open>kelvin_lower\<close> is the lowercase mapping on that one text.
\<close>

definition kelvin_hook :: string where
  "kelvin_hook = ''Hoo'' @ [CHR 0xE2, CHR 0x84, CHR 0xAA]"

definition kelvin_lower :: "string \<Rightarrow> string" where
  "kelvin_lower s = (if s = kelvin_hook then ''hook'' else s)"

text \<open>The segments of a path: the pieces between its slashes.\<close>

fun split_on :: "char \<Rightarrow> string \<Rightarrow> string list" where
  "split_on sep [] = [[]]"
| "split_on sep (c # cs) =
     (if c = sep then [] # split_on sep cs
      else (case split_on sep cs of
              [] \<Rightarrow> [[c]]
            | w # ws \<Rightarrow> (c # w) # ws))"

definition path_segments :: "string \<Rightarrow> string list" where
  "path_segments p = split_on (CHR ''/'') p"

subsection \<open>The scan, as the specification words it\<close>








text \<open>A tree with the single file \<open>components/ui/Button.tsx\<close> of 200 lines.\<close>

definition button_tree :: file_tree where
  "button_tree =
     \<lparr>listing = [BASEDIR @ ''/components/ui/Button.tsx''],
      text_lines = (\<lambda>p. if p = BASEDIR @ ''/components/ui/Button.tsx''
                         then Some (replicate 200 ''x'') else None),
      unsearchable = (\<lambda>d. False)\<rparr>"



subsection \<open>The ranking, as the specification words it\<close>

text \<open>
  An entry is labelled when its priority and complexity are tier names. \<open>ranks_before a b\<close>:
  \<open>a\<close> has to stand before \<open>b\<close>, by priority (Critical, High, Medium, Low), then by
  complexity (High, Medium, Low), then by the larger line count. \<open>same_rank\<close>: the two
  entries agree on all three keys.
\<close>

definition priority_rank :: "string \<Rightarrow> int" where
  "priority_rank p =
     (if p = ''Critical'' then 0 else if p = ''High'' then 1 else if p = ''Medium'' then 2 else 3)"

definition complexity_rank :: "string \<Rightarrow> int" where
  "complexity_rank c = (if c = ''High'' then 0 else if c = ''Medium'' then 1 else 2)"

definition labelled :: "entry \<Rightarrow> bool" where
  "labelled e \<longleftrightarrow>
     priority e \<in> {''Critical'', ''High'', ''Medium'', ''Low''} \<and>
     complexity e \<in> {''High'', ''Medium'', ''Low''}"

definition ranks_before :: "entry \<Rightarrow> entry \<Rightarrow> bool" where
  "ranks_before a b \<longleftrightarrow>
     priority_rank (priority a) < priority_rank (priority b) \<or>
     (priority_rank (priority a) = priority_rank (priority b) \<and>
      (complexity_rank (complexity a) < complexity_rank (complexity b) \<or>
       (complexity_rank (complexity a) = complexity_rank (complexity b) \<and>
        lines a > lines b)))"

definition same_rank :: "entry \<Rightarrow> entry \<Rightarrow> bool" where
  "same_rank a b \<longleftrightarrow>
     priority_rank (priority a) = priority_rank (priority b) \<and>
     complexity_rank (complexity a) = complexity_rank (complexity b) \<and>
     lines a = lines b"

definition rank_key :: "entry \<Rightarrow> int \<times> int \<times> int" where
  "rank_key e = (priority_rank (priority e), complexity_rank (complexity e), - lines e)"

subsection \<open>The synthesizer, as the specification words it\<close>

text \<open>
  For a path of the target list: the component file, the directory of its skeleton and the
  skeleton \<open>parent/__tests__/stem.test.ext\<close>. The skeleton is present when that directory is
  a directory and \<open>exists()\<close> on the skeleton's path returns \<open>True\<close>.
\<close>

definition component_path_of :: "string \<Rightarrow> string" where
  "component_path_of component_path_str = path_join BASEDIR component_path_str"

definition skeleton_dir_of :: "string \<Rightarrow> string" where
  "skeleton_dir_of component_path_str =
     path_join (path_parent (component_path_of component_path_str)) ''__tests__''"

definition skeleton_path_of :: "string \<Rightarrow> string" where
  "skeleton_path_of component_path_str =
     path_join (skeleton_dir_of component_path_str)
       (path_stem (component_path_of component_path_str) @ ''.test'' @
        path_suffix (component_path_of component_path_str))"

definition skeleton_present :: "disk \<Rightarrow> string \<Rightarrow> bool" where
  "skeleton_present fs component_path_str \<longleftrightarrow>
     nodes fs (skeleton_dir_of component_path_str) = Some Directory \<and>
     exists_on fs (skeleton_path_of component_path_str) = Inr True"

text \<open>
  The sections of a skeleton: every block belongs to one section, the header block to the
  rendering section. The signals are the tests that \<open>analyze_component\<close> makes on the text.
\<close>

datatype skeleton_section =
    Rendering_Section | State_Section | Form_Section | Api_Section | Mutation_Section
  | Interaction_Section | Accessibility_Section | Error_Section | Edge_Section

fun section_of :: "block \<Rightarrow> skeleton_section" where
  "section_of (Header n r) = Rendering_Section"
| "section_of StateOpen = State_Section"
| "section_of (StateCase v n) = State_Section"
| "section_of StateClose = State_Section"
| "section_of (FormHandling n) = Form_Section"
| "section_of (ApiIntegration n) = Api_Section"
| "section_of (DataMutations n) = Mutation_Section"
| "section_of (UserInteractions n) = Interaction_Section"
| "section_of (Accessibility n) = Accessibility_Section"
| "section_of (ErrorHandling n) = Error_Section"
| "section_of (EdgeCases n) = Edge_Section"

definition sections :: "block list \<Rightarrow> skeleton_section set" where
  "sections blocks = section_of ` set blocks"











text \<open>
  The message for a component that is missing or cannot be analysed, and six small disks:
  an empty one, one where the first target and its skeleton exist, one where the first
  target cannot be read, one where the directory of the first target gives no search
  permission, one where a file stands in the place of the first target's \<open>__tests__\<close>
  directory, and one with a component that has a form and a network call.
\<close>

definition failure_message :: "disk \<Rightarrow> string \<Rightarrow> py_error \<Rightarrow> message" where
  "failure_message fs t e =
     (if nodes fs (component_path_of t) = None then ComponentNotFound (component_path_of t)
      else ErrorAnalyzing (component_path_of t) e)"

definition empty_disk :: disk where
  "empty_disk = \<lparr>nodes = (\<lambda>p. None), read_only = (\<lambda>p. False), no_search = (\<lambda>d. False)\<rparr>"

definition skeleton_disk :: disk where
  "skeleton_disk =
     \<lparr>nodes = map_of
        [(BASEDIR @ ''/app/dev-resources'', Directory),
         (BASEDIR @ ''/app/dev-resources/DevResourcesClient.tsx'',
          File ''export default function DevResourcesClient() {}''),
         (BASEDIR @ ''/app/dev-resources/__tests__'', Directory),
         (BASEDIR @ ''/app/dev-resources/__tests__/DevResourcesClient.test.tsx'',
          File ''// written by hand'')],
      read_only = (\<lambda>p. False),
      no_search = (\<lambda>d. False)\<rparr>"

definition unreadable_disk :: disk where
  "unreadable_disk =
     \<lparr>nodes = map_of
        [(BASEDIR @ ''/app/dev-resources'', Directory),
         (BASEDIR @ ''/app/dev-resources/DevResourcesClient.tsx'',
          Unreadable PermissionError)],
      read_only = (\<lambda>p. False),
      no_search = (\<lambda>d. False)\<rparr>"

definition locked_disk :: disk where
  "locked_disk =
     \<lparr>nodes = map_of
        [(BASEDIR @ ''/app/dev-resources'', Directory),
         (BASEDIR @ ''/app/dev-resources/DevResourcesClient.tsx'',
          Unreadable PermissionError)],
      read_only = (\<lambda>p. False),
      no_search = (\<lambda>d. d = BASEDIR @ ''/app/dev-resources'')\<rparr>"

definition blocked_disk :: disk where
  "blocked_disk =
     \<lparr>nodes = map_of
        [(BASEDIR @ ''/app/dev-resources'', Directory),
         (BASEDIR @ ''/app/dev-resources/DevResourcesClient.tsx'',
          File ''export default function DevResourcesClient() {}''),
         (BASEDIR @ ''/app/dev-resources/__tests__'', File ''not a directory'')],
      read_only = (\<lambda>p. False),
      no_search = (\<lambda>d. False)\<rparr>"


section \<open>Properties of the classifier\<close>

subsection \<open>Evaluating the definitions on concrete strings\<close>

lemma lower_char_bits:
  "lower_char (Char b0 b1 b2 b3 b4 b5 b6 b7) =
     (if 65 \<le> (of_char (Char b0 b1 b2 b3 b4 b5 b6 b7) :: nat) \<and>
         (of_char (Char b0 b1 b2 b3 b4 b5 b6 b7) :: nat) \<le> 90
      then Char b0 b1 b2 b3 b4 True b6 b7
      else Char b0 b1 b2 b3 b4 b5 b6 b7)"
  by (cases b0; cases b1; cases b2; cases b3; cases b4; cases b5; cases b6; cases b7)
    (simp_all add: lower_char_def char_of_def bit_0)

lemmas string_eval = lower_def is_ascii_def lower_char_bits sublist_code suffix_to_prefix

lemmas path_eval = BASEDIR_def path_name_def path_parent_def path_join_def last_dot_def
  path_stem_def path_suffix_def relative_to_def

lemmas classifier_eval = get_complexity_def get_priority_def high_patterns_def
  medium_patterns_def business_logic_paths_def

subsection \<open>Lowercasing and containment without regard to case\<close>

lemma of_char_lower_char:
  "(of_char (lower_char c) :: nat) =
     (if 65 \<le> (of_char c :: nat) \<and> (of_char c :: nat) \<le> 90 then of_char c + 32 else of_char c)"
  by (simp add: lower_char_def Let_def)

lemma lower_char_eq_iff: "lower_char c = lower_char d \<longleftrightarrow> eq_ci c d"
proof -
  have "lower_char c = lower_char d \<longleftrightarrow>
      (of_char (lower_char c) :: nat) = of_char (lower_char d)"
    by simp
  also have "\<dots> \<longleftrightarrow> eq_ci c d"
  proof -
    have "c = d \<longleftrightarrow> (of_char c :: nat) = of_char d" by simp
    then show ?thesis
      unfolding of_char_lower_char eq_ci_def Let_def by (auto split: if_splits)
  qed
  finally show ?thesis .
qed

lemma prefix_lower_iff:
  "prefix (map lower_char pat) (map lower_char s) \<longleftrightarrow> prefix_ci pat s"
  by (induction pat s rule: prefix_ci.induct) (simp_all add: lower_char_eq_iff)

lemma sublist_lower_iff:
  "sublist (map lower_char pat) (map lower_char s) \<longleftrightarrow> contains_ci s pat"
proof (induction s)
  case Nil
  show ?case by (cases pat) simp_all
next
  case (Cons c cs)
  have "sublist (map lower_char pat) (map lower_char (c # cs)) \<longleftrightarrow>
      prefix (map lower_char pat) (map lower_char (c # cs)) \<or>
      sublist (map lower_char pat) (map lower_char cs)"
    by (simp add: sublist_Cons_right)
  with Cons prefix_lower_iff [of pat "c # cs"] show ?case by simp
qed

lemmas rule_eval = has_critical_substring_def has_business_substring_def
  has_medium_substring_def contains_ignoring_case_def sublist_lower_iff [symmetric]

lemma lower_ascii: "is_ascii s \<Longrightarrow> lower unicode_lower s = map lower_char s"
  by (simp add: lower_def)

lemma lowered_contains_iff:
  assumes "is_ascii pat"
  shows "sublist (lower unicode_lower pat) (lower unicode_lower s) \<longleftrightarrow>
     contains_ignoring_case unicode_lower s pat"
  using assms
  by (simp add: lower_def contains_ignoring_case_def sublist_lower_iff)

lemma plain_contains_iff:
  assumes "map lower_char pat = pat"
  shows "sublist pat (lower unicode_lower s) \<longleftrightarrow> contains_ignoring_case unicode_lower s pat"
proof (cases "is_ascii s")
  case True
  have "sublist pat (map lower_char s) \<longleftrightarrow> sublist (map lower_char pat) (map lower_char s)"
    by (simp add: assms)
  with True show ?thesis
    by (simp add: lower_def contains_ignoring_case_def sublist_lower_iff)
next
  case False
  then show ?thesis
    by (simp add: lower_def contains_ignoring_case_def assms)
qed

subsection \<open>The loops of \<open>get_priority\<close>\<close>

lemma match_lowered_iff:
  "match_lowered unicode_lower ps s \<longleftrightarrow> (\<exists>p \<in> set ps. sublist (lower unicode_lower p) s)"
  by (induction ps) auto

lemma match_plain_iff: "match_plain ps s \<longleftrightarrow> (\<exists>p \<in> set ps. sublist p s)"
  by (induction ps) auto

lemma match_lowered_contains:
  assumes "list_all is_ascii ps"
  shows "match_lowered unicode_lower ps (lower unicode_lower s) \<longleftrightarrow>
     (\<exists>p \<in> set ps. contains_ignoring_case unicode_lower s p)"
  using assms by (simp add: match_lowered_iff list_all_iff lowered_contains_iff)

lemma match_plain_contains:
  assumes "list_all (\<lambda>p. map lower_char p = p) ps"
  shows "match_plain ps (lower unicode_lower s) \<longleftrightarrow>
     (\<exists>p \<in> set ps. contains_ignoring_case unicode_lower s p)"
  using assms by (simp add: match_plain_iff list_all_iff plain_contains_iff)

lemma pattern_lists_plain:
  "list_all is_ascii high_patterns" "list_all is_ascii medium_patterns"
  "list_all (\<lambda>p. map lower_char p = p) business_logic_paths"
  by (simp_all add: high_patterns_def medium_patterns_def business_logic_paths_def
      is_ascii_def lower_char_bits)

lemma high_patterns_match:
  "match_lowered unicode_lower high_patterns (lower unicode_lower filename) =
     has_critical_substring unicode_lower filename"
  unfolding match_lowered_contains [OF pattern_lists_plain(1)] has_critical_substring_def
  by (simp only: high_patterns_def list.set)

lemma medium_patterns_match:
  "match_lowered unicode_lower medium_patterns (lower unicode_lower filename) =
     has_medium_substring unicode_lower filename"
  unfolding match_lowered_contains [OF pattern_lists_plain(2)] has_medium_substring_def
  by (simp only: medium_patterns_def list.set)

lemma business_paths_match:
  "match_plain business_logic_paths (lower unicode_lower filepath) =
     has_business_substring unicode_lower filepath"
  unfolding match_plain_contains [OF pattern_lists_plain(3)] has_business_substring_def
  by (simp only: business_logic_paths_def list.set)

lemma get_priority_cases:
  "get_priority unicode_lower filename filepath =
     (if has_critical_substring unicode_lower filename then ''Critical''
      else if has_business_substring unicode_lower filepath then ''High''
      else if has_medium_substring unicode_lower filename then ''Medium''
      else ''Low'')"
  by (simp add: get_priority_def Let_def high_patterns_match medium_patterns_match
      business_paths_match)

text \<open>
  C2. For every line count \<open>L\<close> (negative ones included, so in particular every non-negative
  one), \<open>get_complexity L\<close> is High exactly when \<open>L > 300\<close>, Medium exactly when
  \<open>150 < L \<le> 300\<close> and Low exactly when \<open>L \<le> 150\<close>; the boundary values 150, 151, 300 and
  301 are Low, Medium, Medium and High.
\<close>

theorem get_complexity_thresholds:
  "(get_complexity L = ''High'' \<longleftrightarrow> L > 300) \<and>
   (get_complexity L = ''Medium'' \<longleftrightarrow> 150 < L \<and> L \<le> 300) \<and>
   (get_complexity L = ''Low'' \<longleftrightarrow> L \<le> 150) \<and>
   get_complexity 150 = ''Low'' \<and> get_complexity 151 = ''Medium'' \<and>
   get_complexity 300 = ''Medium'' \<and> get_complexity 301 = ''High''"
  by (simp add: get_complexity_def)

text \<open>
  C1. \<open>get_priority\<close> applies its rules in order and the first one that matches decides:
  a critical substring in the filename, whatever its case, gives Critical whatever the
  path is; otherwise a business-domain substring in the path, whatever its case, gives
  High, also when the filename has a medium substring; otherwise a medium substring in the
  filename gives Medium; otherwise the result is Low. This holds for every filename and
  path and every lowercase mapping of the texts outside ASCII.
\<close>

theorem get_priority_first_match_wins:
  "(has_critical_substring unicode_lower filename \<longrightarrow>
      get_priority unicode_lower filename filepath = ''Critical'') \<and>
   (\<not> has_critical_substring unicode_lower filename \<and>
    has_business_substring unicode_lower filepath \<longrightarrow>
      get_priority unicode_lower filename filepath = ''High'') \<and>
   (\<not> has_critical_substring unicode_lower filename \<and>
    \<not> has_business_substring unicode_lower filepath \<and>
    has_medium_substring unicode_lower filename \<longrightarrow>
      get_priority unicode_lower filename filepath = ''Medium'') \<and>
   (\<not> has_critical_substring unicode_lower filename \<and>
    \<not> has_business_substring unicode_lower filepath \<and>
    \<not> has_medium_substring unicode_lower filename \<longrightarrow>
      get_priority unicode_lower filename filepath = ''Low'')"
  by (simp add: get_priority_cases)

theorem get_priority_first_match_wins_witness:
  "has_critical_substring (\<lambda>s. s) ''authmodal'' \<and>
   get_priority (\<lambda>s. s) ''authmodal'' ''/srv/components/ui/authmodal.tsx'' = ''Critical'' \<and>
   has_critical_substring (\<lambda>s. s) ''LOGINPAGE'' \<and>
   get_priority (\<lambda>s. s) ''LOGINPAGE'' ''/srv/x/LOGINPAGE.tsx'' = ''Critical'' \<and>
   \<not> has_critical_substring (\<lambda>s. s) ''SETTINGSwidget'' \<and>
   has_business_substring (\<lambda>s. s) ''/srv/App/DASHBOARD/SETTINGSwidget.tsx'' \<and>
   has_medium_substring (\<lambda>s. s) ''SETTINGSwidget'' \<and>
   get_priority (\<lambda>s. s) ''SETTINGSwidget'' ''/srv/App/DASHBOARD/SETTINGSwidget.tsx'' =
     ''High'' \<and>
   \<not> has_critical_substring (\<lambda>s. s) ''usertable'' \<and>
   \<not> has_business_substring (\<lambda>s. s) ''/srv/components/ui/usertable.tsx'' \<and>
   has_medium_substring (\<lambda>s. s) ''usertable'' \<and>
   get_priority (\<lambda>s. s) ''usertable'' ''/srv/components/ui/usertable.tsx'' = ''Medium'' \<and>
   \<not> has_critical_substring (\<lambda>s. s) ''Button'' \<and>
   \<not> has_business_substring (\<lambda>s. s) ''/srv/components/ui/Button.tsx'' \<and>
   \<not> has_medium_substring (\<lambda>s. s) ''Button'' \<and>
   get_priority (\<lambda>s. s) ''Button'' ''/srv/components/ui/Button.tsx'' = ''Low'' \<and>
   has_critical_substring kelvin_lower kelvin_hook \<and>
   get_priority kelvin_lower kelvin_hook (''/srv/lib/'' @ kelvin_hook @ ''.ts'') = ''Critical''"
proof -
  have facts:
    "has_critical_substring (\<lambda>s. s) ''authmodal'' \<and>
     has_critical_substring (\<lambda>s. s) ''LOGINPAGE'' \<and>
     \<not> has_critical_substring (\<lambda>s. s) ''SETTINGSwidget'' \<and>
     has_business_substring (\<lambda>s. s) ''/srv/App/DASHBOARD/SETTINGSwidget.tsx'' \<and>
     has_medium_substring (\<lambda>s. s) ''SETTINGSwidget'' \<and>
     \<not> has_critical_substring (\<lambda>s. s) ''usertable'' \<and>
     \<not> has_business_substring (\<lambda>s. s) ''/srv/components/ui/usertable.tsx'' \<and>
     has_medium_substring (\<lambda>s. s) ''usertable'' \<and>
     \<not> has_critical_substring (\<lambda>s. s) ''Button'' \<and>
     \<not> has_business_substring (\<lambda>s. s) ''/srv/components/ui/Button.tsx'' \<and>
     \<not> has_medium_substring (\<lambda>s. s) ''Button''"
    by (simp add: rule_eval string_eval)
  have k: "has_critical_substring kelvin_lower kelvin_hook"
    by (simp add: rule_eval string_eval kelvin_hook_def kelvin_lower_def)
  have r1: "get_priority (\<lambda>s. s) ''authmodal'' ''/srv/components/ui/authmodal.tsx'' =
      ''Critical''"
    using facts
      get_priority_first_match_wins
        [of "\<lambda>s. s" "''authmodal''" "''/srv/components/ui/authmodal.tsx''"]
    by simp
  have r2: "get_priority (\<lambda>s. s) ''LOGINPAGE'' ''/srv/x/LOGINPAGE.tsx'' = ''Critical''"
    using facts
      get_priority_first_match_wins [of "\<lambda>s. s" "''LOGINPAGE''" "''/srv/x/LOGINPAGE.tsx''"]
    by simp
  have r3: "get_priority (\<lambda>s. s) ''SETTINGSwidget'' ''/srv/App/DASHBOARD/SETTINGSwidget.tsx'' =
      ''High''"
    using facts
      get_priority_first_match_wins
        [of "\<lambda>s. s" "''SETTINGSwidget''" "''/srv/App/DASHBOARD/SETTINGSwidget.tsx''"]
    by simp
  have r4: "get_priority (\<lambda>s. s) ''usertable'' ''/srv/components/ui/usertable.tsx'' =
      ''Medium''"
    using facts
      get_priority_first_match_wins
        [of "\<lambda>s. s" "''usertable''" "''/srv/components/ui/usertable.tsx''"]
    by simp
  have r5: "get_priority (\<lambda>s. s) ''Button'' ''/srv/components/ui/Button.tsx'' = ''Low''"
    using facts
      get_priority_first_match_wins
        [of "\<lambda>s. s" "''Button''" "''/srv/components/ui/Button.tsx''"]
    by simp
  have r6: "get_priority kelvin_lower kelvin_hook (''/srv/lib/'' @ kelvin_hook @ ''.ts'') =
      ''Critical''"
    using k
      get_priority_first_match_wins
        [of kelvin_lower kelvin_hook "''/srv/lib/'' @ kelvin_hook @ ''.ts''"]
    by simp
  show ?thesis
    using facts k r1 r2 r3 r4 r5 r6 by simp
qed

text \<open>
  C10. The business-domain rule is a substring test on the whole lowercased path, filename
  included: when the filename has no critical substring, the result is High exactly when
  some business-domain word occurs anywhere in the path, whatever its case. The file
  \<open>lib/airplane-utils.ts\<close> has \<open>plan\<close> inside its name, no critical substring and no path
  segment that is a business-domain word, and its priority is High.
\<close>

theorem business_check_is_substring_test:
  "(\<not> has_critical_substring unicode_lower filename \<longrightarrow>
      (get_priority unicode_lower filename filepath = ''High'' \<longleftrightarrow>
       has_business_substring unicode_lower filepath)) \<and>
   sublist ''plan'' (path_name (BASEDIR @ ''/lib/airplane-utils.ts'')) \<and>
   \<not> has_critical_substring unicode_lower (path_stem (BASEDIR @ ''/lib/airplane-utils.ts'')) \<and>
   \<not> list_ex (\<lambda>seg. lower unicode_lower seg \<in> set business_logic_paths)
       (path_segments (BASEDIR @ ''/lib/airplane-utils.ts'')) \<and>
   get_priority unicode_lower (path_stem (BASEDIR @ ''/lib/airplane-utils.ts''))
     (BASEDIR @ ''/lib/airplane-utils.ts'') = ''High''"
proof -
  have "\<not> has_critical_substring unicode_lower filename \<longrightarrow>
      (get_priority unicode_lower filename filepath = ''High'' \<longleftrightarrow>
       has_business_substring unicode_lower filepath)"
    by (simp add: get_priority_cases)
  moreover have "sublist ''plan'' (path_name (BASEDIR @ ''/lib/airplane-utils.ts'')) \<and>
   \<not> has_critical_substring unicode_lower (path_stem (BASEDIR @ ''/lib/airplane-utils.ts'')) \<and>
   \<not> list_ex (\<lambda>seg. lower unicode_lower seg \<in> set business_logic_paths)
       (path_segments (BASEDIR @ ''/lib/airplane-utils.ts'')) \<and>
   get_priority unicode_lower (path_stem (BASEDIR @ ''/lib/airplane-utils.ts''))
     (BASEDIR @ ''/lib/airplane-utils.ts'') = ''High''"
    by (simp add: rule_eval path_segments_def string_eval path_eval classifier_eval)
  ultimately show ?thesis by simp
qed

theorem business_check_is_substring_test_witness:
  "\<not> has_critical_substring (\<lambda>s. s) ''RePlanner'' \<and>
   has_business_substring (\<lambda>s. s) ''/srv/lib/RePlanner.ts'' \<and>
   get_priority (\<lambda>s. s) ''RePlanner'' ''/srv/lib/RePlanner.ts'' = ''High''"
proof -
  have facts: "\<not> has_critical_substring (\<lambda>s. s) ''RePlanner'' \<and>
     has_business_substring (\<lambda>s. s) ''/srv/lib/RePlanner.ts''"
    by (simp add: rule_eval string_eval)
  show ?thesis
    using facts
      business_check_is_substring_test
        [of "\<lambda>s. s" "''RePlanner''" "''/srv/lib/RePlanner.ts''"]
    by simp
qed

section \<open>Properties of the directory scanner\<close>

subsection \<open>Paths\<close>



lemma path_name_no_slash: "CHR ''/'' \<notin> set (path_name p)"
proof
  assume "CHR ''/'' \<in> set (path_name p)"
  then have "CHR ''/'' \<in> set (takeWhile (\<lambda>c. c \<noteq> CHR ''/'') (rev p))"
    by (simp add: path_name_def)
  then show False by (auto dest: set_takeWhileD)
qed

lemma path_stem_no_slash: "CHR ''/'' \<notin> set (path_stem p)"
  using path_name_no_slash [of p]
  by (auto simp: path_stem_def Let_def split: option.splits if_splits dest: in_set_takeD)


text \<open>Every path with a slash is a parent, a slash and a name without slash.\<close>

lemma path_split:
  assumes "CHR ''/'' \<in> set p"
  obtains d n where "p = d @ ''/'' @ n" "CHR ''/'' \<notin> set n"
proof -
  from split_list_last [OF assms] obtain d n where "p = d @ CHR ''/'' # n" "CHR ''/'' \<notin> set n"
    by blast
  then show ?thesis using that [of d n] by simp
qed






subsection \<open>The scan of one directory\<close>












lemmas tree_eval = analyze_directory_def rglob_def skipped_path_def test_file_of_def
  path_exists_def count_lines_def stat_denied_def list_ex_iff

lemma analyze_button_tree:
  "analyze_directory unicode_lower button_tree (BASEDIR @ ''/components/ui'') ''UI Components'' =
     Inr [\<lparr>path = ''components/ui/Button.tsx'', priority = ''Low'', complexity = ''Medium'',
           lines = 200, category = ''UI Components''\<rparr>]"
  by (simp add: button_tree_def tree_eval string_eval path_eval classifier_eval)









subsection \<open>Every entry of a scan carries tier names\<close>

lemma get_priority_labelled:
  "get_priority unicode_lower filename filepath \<in> {''Critical'', ''High'', ''Medium'', ''Low''}"
  by (simp add: get_priority_def Let_def)

lemma get_complexity_labelled: "get_complexity n \<in> {''High'', ''Medium'', ''Low''}"
  by (simp add: get_complexity_def)

lemma scan_files_labelled:
  "scan_files unicode_lower fs cat ext files results = Inr rs \<Longrightarrow> list_all labelled results \<Longrightarrow>
   list_all labelled rs"
proof (induction files arbitrary: results)
  case Nil
  then show ?case by simp
next
  case (Cons p files)
  show ?case
  proof (cases "skipped_path p \<or> path_exists fs (test_file_of p ext) = Inr True")
    case True
    with Cons.prems(1) have "scan_files unicode_lower fs cat ext files results = Inr rs"
      by (auto simp: Let_def split: if_splits)
    then show ?thesis using Cons.prems(2) by (rule Cons.IH)
  next
    case False
    with Cons.prems(1) have ex: "path_exists fs (test_file_of p ext) = Inr False"
      by (cases "path_exists fs (test_file_of p ext)") (auto simp: Let_def)
    with False Cons.prems(1) obtain rel where rel: "relative_to p BASEDIR = Inr rel"
      by (cases "relative_to p BASEDIR") (simp_all add: Let_def)
    let ?e = "\<lparr>path = rel, priority = get_priority unicode_lower (path_stem p) p,
      complexity = get_complexity (count_lines fs p), lines = count_lines fs p,
      category = cat\<rparr>"
    have "labelled ?e"
      using get_priority_labelled [of unicode_lower "path_stem p" p]
        get_complexity_labelled [of "count_lines fs p"]
      by (simp add: labelled_def)
    with Cons.prems(2) have "list_all labelled (results @ [?e])" by simp
    moreover from False ex rel Cons.prems(1)
    have "scan_files unicode_lower fs cat ext files (results @ [?e]) = Inr rs"
      by (simp add: Let_def)
    ultimately show ?thesis by (rule Cons.IH [rotated])
  qed
qed

lemma scan_exts_labelled:
  "scan_exts unicode_lower fs directory cat exts results = Inr rs \<Longrightarrow>
   list_all labelled results \<Longrightarrow> list_all labelled rs"
proof (induction exts arbitrary: results)
  case Nil
  then show ?case by simp
next
  case (Cons ext exts)
  from Cons.prems(1) obtain mid where
    mid: "scan_files unicode_lower fs cat ext (rglob fs directory ext) results = Inr mid"
    and rest: "scan_exts unicode_lower fs directory cat exts mid = Inr rs"
    by (auto split: sum.splits)
  from scan_files_labelled [OF mid Cons.prems(2)] have "list_all labelled mid" .
  with rest show ?case by (rule Cons.IH)
qed

lemma analyze_directory_labelled:
  "analyze_directory unicode_lower fs directory cat = Inr results \<Longrightarrow> list_all labelled results"
  unfolding analyze_directory_def by (erule scan_exts_labelled) simp

lemma extend_untested_labelled:
  "extend_untested unicode_lower fs dirs acc = Inr untested \<Longrightarrow> list_all labelled acc \<Longrightarrow>
   list_all labelled untested"
proof (induction dirs arbitrary: acc)
  case Nil
  then show ?case by simp
next
  case (Cons d dirs)
  obtain directory cat where d: "d = (directory, cat)" by (cases d)
  from Cons.prems(1) d obtain results where
    res: "analyze_directory unicode_lower fs directory cat = Inr results"
    and rest: "extend_untested unicode_lower fs dirs (acc @ results) = Inr untested"
    by (auto split: sum.splits)
  from analyze_directory_labelled [OF res] Cons.prems(2)
  have "list_all labelled (acc @ results)" by simp
  with rest show ?case by (rule Cons.IH)
qed

section \<open>Properties of the report generator\<close>

lemma sort_key_of_labelled: "labelled e \<Longrightarrow> sort_key_of e = Inr (rank_key e)"
  by (auto simp: labelled_def sort_key_of_def dict_get_def priority_order_def
      complexity_order_def rank_key_def priority_rank_def complexity_rank_def)

lemma keyed_labelled:
  "list_all labelled xs \<Longrightarrow> keyed xs = Inr (map (\<lambda>e. (rank_key e, e)) xs)"
  by (induction xs) (simp_all add: sort_key_of_labelled)

lemma sort_key_fst_pairs:
  "sort_key fst (map (\<lambda>e. (f e, e)) xs) = map (\<lambda>e. (f e, e)) (sort_key f xs)"
proof (induction xs)
  case Nil
  then show ?case by simp
next
  case (Cons x xs)
  have "insort_key fst (f x, x) (map (\<lambda>e. (f e, e)) ys) = map (\<lambda>e. (f e, e)) (insort_key f x ys)"
    for ys
    by (induction ys) simp_all
  with Cons show ?case by simp
qed

lemma sort_untested_labelled:
  assumes "list_all labelled xs"
  shows "sort_untested xs = Inr (sort_key rank_key xs)"
  using assms
  by (simp add: sort_untested_def keyed_labelled sort_key_fst_pairs comp_def)

lemma rank_key_less: "rank_key b < rank_key a \<longleftrightarrow> ranks_before b a"
  by (auto simp: rank_key_def ranks_before_def less_prod_def)

lemma rank_key_eq: "rank_key a = rank_key b \<longleftrightarrow> same_rank b a"
  by (auto simp: rank_key_def same_rank_def)

lemma sorted_by_rank: "sorted_wrt (\<lambda>a b. \<not> ranks_before b a) (sort_key rank_key xs)"
proof -
  have "sorted (map rank_key (sort_key rank_key xs))"
    by (rule sorted_sort_key)
  then have "sorted_wrt (\<lambda>a b. rank_key a \<le> rank_key b) (sort_key rank_key xs)"
    by (simp add: sorted_map)
  then show ?thesis
    by (rule sorted_wrt_mono_rel [rotated]) (simp add: rank_key_less [symmetric] not_less)
qed

text \<open>
  C3. On a list of labelled entries the sort succeeds, and its result is a rearrangement of
  the input in which no entry stands after one it ranks before (priority rank first, then
  complexity rank, then line count descending), and the entries that agree on all three
  keys keep the order they had in the input. The list (Critical, Low, 500),
  (Critical, Low, 100), (High, High, 50) is returned as it is.
\<close>

theorem sort_untested_stable_order:
  "list_all labelled xs \<Longrightarrow>
   (\<exists>ys. sort_untested xs = Inr ys \<and> mset ys = mset xs \<and>
      sorted_wrt (\<lambda>a b. \<not> ranks_before b a) ys \<and>
      (\<forall>e. filter (same_rank e) ys = filter (same_rank e) xs)) \<and>
   sort_untested
     [\<lparr>path = p1, priority = ''Critical'', complexity = ''Low'', lines = 500, category = c1\<rparr>,
      \<lparr>path = p2, priority = ''Critical'', complexity = ''Low'', lines = 100, category = c2\<rparr>,
      \<lparr>path = p3, priority = ''High'', complexity = ''High'', lines = 50, category = c3\<rparr>] =
   Inr
     [\<lparr>path = p1, priority = ''Critical'', complexity = ''Low'', lines = 500, category = c1\<rparr>,
      \<lparr>path = p2, priority = ''Critical'', complexity = ''Low'', lines = 100, category = c2\<rparr>,
      \<lparr>path = p3, priority = ''High'', complexity = ''High'', lines = 50, category = c3\<rparr>]"
proof
  assume l: "list_all labelled xs"
  have "filter (same_rank e) (sort_key rank_key xs) = filter (same_rank e) xs" for e
    using sort_key_stable [of rank_key "rank_key e" xs] by (simp add: rank_key_eq)
  then show "\<exists>ys. sort_untested xs = Inr ys \<and> mset ys = mset xs \<and>
      sorted_wrt (\<lambda>a b. \<not> ranks_before b a) ys \<and>
      (\<forall>e. filter (same_rank e) ys = filter (same_rank e) xs)"
    using sort_untested_labelled [OF l] sorted_by_rank [of xs] by simp
next
  show "sort_untested
     [\<lparr>path = p1, priority = ''Critical'', complexity = ''Low'', lines = 500, category = c1\<rparr>,
      \<lparr>path = p2, priority = ''Critical'', complexity = ''Low'', lines = 100, category = c2\<rparr>,
      \<lparr>path = p3, priority = ''High'', complexity = ''High'', lines = 50, category = c3\<rparr>] =
   Inr
     [\<lparr>path = p1, priority = ''Critical'', complexity = ''Low'', lines = 500, category = c1\<rparr>,
      \<lparr>path = p2, priority = ''Critical'', complexity = ''Low'', lines = 100, category = c2\<rparr>,
      \<lparr>path = p3, priority = ''High'', complexity = ''High'', lines = 50, category = c3\<rparr>]"
    by (simp add: sort_untested_labelled labelled_def rank_key_def priority_rank_def
        complexity_rank_def)
qed

theorem sort_untested_stable_order_witness:
  "list_all labelled
     [\<lparr>path = ''a'', priority = ''Critical'', complexity = ''Low'', lines = 100, category = ''x''\<rparr>,
      \<lparr>path = ''b'', priority = ''High'', complexity = ''High'', lines = 50, category = ''x''\<rparr>,
      \<lparr>path = ''c'', priority = ''Critical'', complexity = ''Low'', lines = 500, category = ''x''\<rparr>,
      \<lparr>path = ''d'', priority = ''Critical'', complexity = ''Low'', lines = 100, category = ''x''\<rparr>] \<and>
   (\<exists>ys. sort_untested
     [\<lparr>path = ''a'', priority = ''Critical'', complexity = ''Low'', lines = 100, category = ''x''\<rparr>,
      \<lparr>path = ''b'', priority = ''High'', complexity = ''High'', lines = 50, category = ''x''\<rparr>,
      \<lparr>path = ''c'', priority = ''Critical'', complexity = ''Low'', lines = 500, category = ''x''\<rparr>,
      \<lparr>path = ''d'', priority = ''Critical'', complexity = ''Low'', lines = 100, category = ''x''\<rparr>]
      = Inr ys \<and>
      ys =
     [\<lparr>path = ''c'', priority = ''Critical'', complexity = ''Low'', lines = 500, category = ''x''\<rparr>,
      \<lparr>path = ''a'', priority = ''Critical'', complexity = ''Low'', lines = 100, category = ''x''\<rparr>,
      \<lparr>path = ''d'', priority = ''Critical'', complexity = ''Low'', lines = 100, category = ''x''\<rparr>,
      \<lparr>path = ''b'', priority = ''High'', complexity = ''High'', lines = 50, category = ''x''\<rparr>] \<and>
      sorted_wrt (\<lambda>a b. \<not> ranks_before b a) ys)"
proof -
  let ?xs = "[\<lparr>path = ''a'', priority = ''Critical'', complexity = ''Low'', lines = 100, category = ''x''\<rparr>,
      \<lparr>path = ''b'', priority = ''High'', complexity = ''High'', lines = 50, category = ''x''\<rparr>,
      \<lparr>path = ''c'', priority = ''Critical'', complexity = ''Low'', lines = 500, category = ''x''\<rparr>,
      \<lparr>path = ''d'', priority = ''Critical'', complexity = ''Low'', lines = 100, category = ''x''\<rparr>]"
  have l: "list_all labelled ?xs" by (simp add: labelled_def)
  have s: "sort_untested ?xs = Inr
     [\<lparr>path = ''c'', priority = ''Critical'', complexity = ''Low'', lines = 500, category = ''x''\<rparr>,
      \<lparr>path = ''a'', priority = ''Critical'', complexity = ''Low'', lines = 100, category = ''x''\<rparr>,
      \<lparr>path = ''d'', priority = ''Critical'', complexity = ''Low'', lines = 100, category = ''x''\<rparr>,
      \<lparr>path = ''b'', priority = ''High'', complexity = ''High'', lines = 50, category = ''x''\<rparr>]"
    by (simp add: sort_untested_labelled [OF l] rank_key_def priority_rank_def
        complexity_rank_def)
  from sort_untested_stable_order [OF l, THEN conjunct1] s l show ?thesis
    by auto
qed

text \<open>
  C8. Each percentage is the float \<open>tests / files * 100\<close> when the file count is positive and
  the integer 0 otherwise, so with a file count of 0 it is exactly 0, the division never
  sees a zero denominator, and the five percentages of the report (overall, components,
  app, services, lib) are always computed without an error.
\<close>

theorem coverage_pct_guarded:
  "coverage_pct fdiv fmul n_tests n_files =
     (if n_files > 0 then Inr (PyFloat (fmul (fdiv n_tests n_files) 100)) else Inr (PyInt 0)) \<and>
   coverage_pct fdiv fmul n_tests 0 = Inr (PyInt 0) \<and>
   coverage_pct fdiv fmul n_tests n_files \<noteq> Inl ZeroDivisionError \<and>
   report_percentages fdiv fmul c =
     Inr (map (\<lambda>(t, n). if n > 0 then PyFloat (fmul (fdiv t n) 100) else PyInt 0)
       [(total_test_files c, total_files c), (total_tests c, total_components c),
        (total_app_tests c, total_app c), (total_services_tests c, total_services c),
        (total_lib_tests c, total_lib c)])"
  by (simp add: coverage_pct_def truediv_def report_percentages_def)

lemma labelled_lookups:
  assumes "labelled e"
  shows "(\<exists>p. dict_get priority_order (priority e) = Inr p) \<and>
     (\<exists>c. dict_get complexity_order (complexity e) = Inr c) \<and>
     (\<exists>k. sort_key_of e = Inr k)"
proof (intro conjI)
  show "\<exists>p. dict_get priority_order (priority e) = Inr p"
    using assms by (auto simp: labelled_def dict_get_def priority_order_def)
  show "\<exists>c. dict_get complexity_order (complexity e) = Inr c"
    using assms by (auto simp: labelled_def dict_get_def complexity_order_def)
  show "\<exists>k. sort_key_of e = Inr k"
    using sort_key_of_labelled [OF assms] by (rule exI)
qed

lemma get_priority_values:
  "get_priority unicode_lower ''Client'' [] = ''Critical'' \<and>
   get_priority unicode_lower [] ''plan'' = ''High'' \<and>
   get_priority unicode_lower ''List'' [] = ''Medium'' \<and>
   get_priority unicode_lower [] [] = ''Low''"
  by (simp add: string_eval classifier_eval)

text \<open>
  C9. \<open>get_priority\<close> returns one of Critical, High, Medium, Low and \<open>get_complexity\<close> one of
  High, Medium, Low, and each of these values is returned for some input. So for every
  entry that a scan produces both dictionary lookups of the sort key succeed, and sorting
  the entries collected from any list of directories never ends in \<open>KeyError\<close>.
\<close>

theorem classifier_labels_have_sort_keys:
  "get_priority unicode_lower filename filepath \<in> {''Critical'', ''High'', ''Medium'', ''Low''} \<and>
   get_complexity n \<in> {''High'', ''Medium'', ''Low''} \<and>
   range (\<lambda>(f, p). get_priority unicode_lower f p) = {''Critical'', ''High'', ''Medium'', ''Low''} \<and>
   range get_complexity = {''High'', ''Medium'', ''Low''} \<and>
   (analyze_directory unicode_lower fs directory cat = Inr results \<longrightarrow>
      list_all (\<lambda>e. (\<exists>p. dict_get priority_order (priority e) = Inr p) \<and>
                    (\<exists>c. dict_get complexity_order (complexity e) = Inr c) \<and>
                    (\<exists>k. sort_key_of e = Inr k)) results) \<and>
   (extend_untested unicode_lower fs dirs [] = Inr untested \<longrightarrow>
      (\<exists>ys. sort_untested untested = Inr ys) \<and> sort_untested untested \<noteq> Inl KeyError)"
proof (intro conjI impI)
  show "get_priority unicode_lower filename filepath \<in> {''Critical'', ''High'', ''Medium'', ''Low''}"
    by (rule get_priority_labelled)
  show "get_complexity n \<in> {''High'', ''Medium'', ''Low''}"
    by (rule get_complexity_labelled)
  show "range (\<lambda>(f, p). get_priority unicode_lower f p) = {''Critical'', ''High'', ''Medium'', ''Low''}"
  proof
    show "range (\<lambda>(f, p). get_priority unicode_lower f p) \<subseteq> {''Critical'', ''High'', ''Medium'', ''Low''}"
      using get_priority_labelled by auto
    have "get_priority unicode_lower f p \<in> range (\<lambda>(f, p). get_priority unicode_lower f p)" for f p
      by (rule range_eqI [of _ _ "(f, p)"]) simp
    from this [of "''Client''" "[]"] this [of "[]" "''plan''"] this [of "''List''" "[]"]
      this [of "[]" "[]"]
    show "{''Critical'', ''High'', ''Medium'', ''Low''} \<subseteq> range (\<lambda>(f, p). get_priority unicode_lower f p)"
      by (simp add: get_priority_values)
  qed
  show "range get_complexity = {''High'', ''Medium'', ''Low''}"
  proof
    show "range get_complexity \<subseteq> {''High'', ''Medium'', ''Low''}"
      using get_complexity_labelled by auto
    have "get_complexity k \<in> range get_complexity" for k by simp
    from this [of 301] this [of 151] this [of 0]
    show "{''High'', ''Medium'', ''Low''} \<subseteq> range get_complexity"
      by (simp add: get_complexity_def)
  qed
next
  assume "analyze_directory unicode_lower fs directory cat = Inr results"
  then have "list_all labelled results" by (rule analyze_directory_labelled)
  then show "list_all (\<lambda>e. (\<exists>p. dict_get priority_order (priority e) = Inr p) \<and>
                    (\<exists>c. dict_get complexity_order (complexity e) = Inr c) \<and>
                    (\<exists>k. sort_key_of e = Inr k)) results"
    using labelled_lookups by (simp add: list_all_iff)
next
  assume "extend_untested unicode_lower fs dirs [] = Inr untested"
  then have l: "list_all labelled untested" by (rule extend_untested_labelled) simp
  show "\<exists>ys. sort_untested untested = Inr ys"
    using sort_untested_labelled [OF l] by simp
  show "sort_untested untested \<noteq> Inl KeyError"
    using sort_untested_labelled [OF l] by simp
qed

theorem classifier_labels_have_sort_keys_witness:
  "analyze_directory (\<lambda>s. s) button_tree (BASEDIR @ ''/components/ui'') ''UI Components'' =
     Inr [\<lparr>path = ''components/ui/Button.tsx'', priority = ''Low'', complexity = ''Medium'',
           lines = 200, category = ''UI Components''\<rparr>] \<and>
   (\<exists>k. sort_key_of \<lparr>path = ''components/ui/Button.tsx'', priority = ''Low'',
      complexity = ''Medium'', lines = 200, category = ''UI Components''\<rparr> = Inr k) \<and>
   extend_untested (\<lambda>s. s) button_tree [(BASEDIR @ ''/components/ui'', ''UI Components'')] [] =
     Inr [\<lparr>path = ''components/ui/Button.tsx'', priority = ''Low'', complexity = ''Medium'',
           lines = 200, category = ''UI Components''\<rparr>] \<and>
   (\<exists>ys. sort_untested [\<lparr>path = ''components/ui/Button.tsx'', priority = ''Low'',
      complexity = ''Medium'', lines = 200, category = ''UI Components''\<rparr>] = Inr ys)"
proof -
  let ?e = "\<lparr>path = ''components/ui/Button.tsx'', priority = ''Low'',
      complexity = ''Medium'', lines = 200, category = ''UI Components''\<rparr>"
  let ?d = "BASEDIR @ ''/components/ui''"
  note a = analyze_button_tree
  have x: "extend_untested (\<lambda>s. s) button_tree [(?d, ''UI Components'')] [] = Inr [?e]"
    by (simp add: a)
  note t = classifier_labels_have_sort_keys
    [of "\<lambda>s. s" _ _ _ button_tree ?d "''UI Components''" "[?e]" "[(?d, ''UI Components'')]"
      "[?e]"]
  from t a have "\<exists>k. sort_key_of ?e = Inr k" by simp
  moreover from t x have "\<exists>ys. sort_untested [?e] = Inr ys" by simp
  ultimately show ?thesis using a x by simp
qed

section \<open>Properties of the template synthesizer\<close>

subsection \<open>The directories above a skeleton\<close>

lemma directories_to_append:
  "directories_to acc (xs @ ys) = directories_to acc xs @ directories_to (acc @ xs) ys"
  by (induction xs arbitrary: acc) simp_all

lemma directories_to_no_slash: "CHR ''/'' \<notin> set xs \<Longrightarrow> directories_to acc xs = []"
  by (induction xs arbitrary: acc) auto

lemma path_suffix_no_slash: "CHR ''/'' \<notin> set (path_suffix p)"
  using path_name_no_slash [of p]
  by (auto simp: path_suffix_def Let_def split: option.splits if_splits dest: in_set_dropD)

lemma path_parent_split:
  assumes "CHR ''/'' \<notin> set n"
  shows "path_parent (d @ ''/'' @ n) = (if d = [] then ''/'' else d)"
proof -
  have "dropWhile (\<lambda>c. c \<noteq> CHR ''/'') (rev n @ CHR ''/'' # rev d) = CHR ''/'' # rev d"
    using assms by (subst dropWhile_append2) auto
  then show ?thesis by (simp add: path_parent_def)
qed

lemma component_has_slash: "CHR ''/'' \<in> set (component_path_of t)"
  by (auto simp: component_path_of_def path_join_def prefix_def BASEDIR_def)

lemma skeleton_ancestors:
  "set (ancestors (component_path_of t)) \<subseteq> set (ancestors (skeleton_path_of t)) \<and>
   set (ancestors (skeleton_dir_of t)) \<subseteq> set (ancestors (skeleton_path_of t))"
proof -
  let ?c = "component_path_of t"
  let ?nm = "path_stem ?c @ ''.test'' @ path_suffix ?c"
  from component_has_slash [of t] obtain d n where c: "?c = d @ ''/'' @ n"
    and n: "CHR ''/'' \<notin> set n"
    by (rule path_split)
  have nm: "CHR ''/'' \<notin> set ?nm"
    using path_stem_no_slash [of ?c] path_suffix_no_slash [of ?c] by simp
  have np: "\<not> prefix ''/'' ?nm"
    using path_stem_no_slash [of ?c] by (cases "path_stem ?c") auto
  have par: "path_parent ?c = (if d = [] then ''/'' else d)"
    using path_parent_split [OF n, of d] c by simp
  show ?thesis
  proof (cases "d = [] \<or> d = ''/''")
    case True
    then have dir: "skeleton_dir_of t = ''/__tests__''"
      using par by (auto simp: skeleton_dir_of_def path_join_def)
    with np have skel: "skeleton_path_of t = ''/__tests__/'' @ ?nm"
      by (simp add: skeleton_path_of_def path_join_def)
    have "set (ancestors ?c) \<subseteq> {''/''}"
      using True c n by (auto simp: ancestors_def directories_to_no_slash)
    moreover have "ancestors (skeleton_path_of t) = [''/'', ''/__tests__'']"
      using nm by (simp add: skel ancestors_def directories_to_no_slash)
    moreover have "ancestors (skeleton_dir_of t) = [''/'']"
      by (simp add: dir ancestors_def)
    ultimately show ?thesis by auto
  next
    case False
    then have dir: "skeleton_dir_of t = d @ ''/__tests__''"
      using par by (auto simp: skeleton_dir_of_def path_join_def)
    with np have skel: "skeleton_path_of t = d @ ''/__tests__/'' @ ?nm"
      by (simp add: skeleton_path_of_def path_join_def)
    have "ancestors ?c = directories_to [] d @ [d]"
      using False n by (simp add: c ancestors_def directories_to_append directories_to_no_slash)
    moreover have "ancestors (skeleton_path_of t) =
        directories_to [] d @ [d, d @ ''/__tests__'']"
      using False nm
      by (simp add: skel ancestors_def directories_to_append directories_to_no_slash)
    moreover have "ancestors (skeleton_dir_of t) = directories_to [] d @ [d]"
      using False by (simp add: dir ancestors_def directories_to_append)
    ultimately show ?thesis by auto
  qed
qed

lemma skeleton_visible:
  assumes "\<not> stat_denied ns (skeleton_path_of t)"
  shows "\<not> stat_denied ns (component_path_of t)" "\<not> stat_denied ns (skeleton_dir_of t)"
  using assms skeleton_ancestors [of t] by (auto simp: stat_denied_def list_ex_iff)

subsection \<open>Existing files are never changed\<close>






lemma create_test_file_skeleton_present:
  assumes "skeleton_present fs t"
  shows "create_test_file unicode_findall fs t =
     (Inr False, fs,
      if nodes fs (component_path_of t) = None then [ComponentNotFound (component_path_of t)]
      else case read_text fs (component_path_of t) of
             Inl e \<Rightarrow> [ErrorAnalyzing (component_path_of t) e]
           | Inr content \<Rightarrow> [TestFileExists (skeleton_path_of t)])"
proof -
  from assms have vis: "\<not> stat_denied (no_search fs) (skeleton_path_of t)"
    by (auto simp: skeleton_present_def exists_on_def split: if_splits)
  note v = skeleton_visible [OF vis]
  from assms v(2) have m: "mkdir_exist_ok fs (skeleton_dir_of t) = Inr fs"
    by (simp add: skeleton_present_def mkdir_exist_ok_def)
  from assms have f: "exists_on fs (skeleton_path_of t) = Inr True"
    by (simp add: skeleton_present_def)
  from v(1) have e: "exists_on fs (component_path_of t) =
      Inr (nodes fs (component_path_of t) \<noteq> None)"
    by (simp add: exists_on_def)
  show ?thesis
    using m f e unfolding skeleton_path_of_def skeleton_dir_of_def component_path_of_def
    by (simp add: create_test_file_def analyze_component_def Let_def split: sum.splits)
qed

lemma process_item_skeleton_present:
  assumes "skeleton_present fs t"
  shows "\<exists>msgs. process_item unicode_findall (i, t) (fs, c, out) =
     (fs, c\<lparr>skipped := skipped c + 1\<rparr>, out @ Processing i t # msgs)"
  using create_test_file_skeleton_present [OF assms] by simp


lemmas disk_eval = exists_on_def read_text_def component_path_of_def skeleton_dir_of_def
  skeleton_path_of_def skeleton_present_def stat_denied_def list_ex_iff




subsection \<open>The sections of a skeleton\<close>




































subsection \<open>Missing and unreadable components\<close>

lemma create_test_file_unreadable:
  assumes "read_text fs (component_path_of t) = Inl e"
    "\<not> stat_denied (no_search fs) (component_path_of t)"
  shows "create_test_file unicode_findall fs t = (Inr False, fs, [failure_message fs t e])"
  using assms
  by (auto simp: create_test_file_def analyze_component_def failure_message_def
      component_path_of_def exists_on_def read_text_def split: option.splits)

lemma create_test_file_denied:
  assumes "stat_denied (no_search fs) (component_path_of t)"
  shows "create_test_file unicode_findall fs t = (Inl PermissionError, fs, [])"
  using assms by (simp add: create_test_file_def component_path_of_def exists_on_def)

lemma process_item_counts:
  "process_item unicode_findall (i, t) (fs, c, out) = (fs', c', out') \<Longrightarrow>
   created c' + skipped c' + errors c' = created c + skipped c + errors c + 1"
  by (auto split: prod.splits sum.splits bool.splits if_splits)

lemma main_loop_counts:
  "main_loop unicode_findall items (fs, c, out) = (fs', c', out') \<Longrightarrow>
   created c' + skipped c' + errors c' = created c + skipped c + errors c + int (length items)"
proof (induction items arbitrary: fs c out)
  case Nil
  then show ?case by simp
next
  case (Cons item items)
  obtain i t where item: "item = (i, t)" by (cases item)
  obtain fs1 c1 out1 where
    step: "process_item unicode_findall (i, t) (fs, c, out) = (fs1, c1, out1)"
    by (cases "process_item unicode_findall (i, t) (fs, c, out)") auto
  from Cons.prems item step
  have "main_loop unicode_findall items (fs1, c1, out1) = (fs', c', out')"
    by simp
  from Cons.IH [OF this] process_item_counts [OF step] show ?case by simp
qed

lemma process_item_errors:
  "errors (fst (snd (process_item unicode_findall (i, t) (fs, c, out)))) =
     errors c +
     (case fst (create_test_file unicode_findall fs t) of Inl e \<Rightarrow> 1 | Inr b \<Rightarrow> 0)"
  by (cases "create_test_file unicode_findall fs t") (auto split: sum.splits bool.splits)

lemma mkdir_failure_counted_as_error:
  "process_item unicode_findall (1, ''app/dev-resources/DevResourcesClient.tsx'')
     (blocked_disk, \<lparr>created = 0, skipped = 0, errors = 0\<rparr>, []) =
   (blocked_disk, \<lparr>created = 0, skipped = 0, errors = 1\<rparr>,
    [Processing 1 ''app/dev-resources/DevResourcesClient.tsx'', ErrorMessage FileExistsError])"
  by (simp add: create_test_file_def analyze_component_def mkdir_exist_ok_def blocked_disk_def
      disk_eval path_eval)

text \<open>
  C7, as the code has it. Let the file of a target be missing or unreadable. When every
  directory above it gives search permission, \<open>create_test_file\<close> prints one message naming
  the path of the component, changes no file and returns \<open>False\<close>, and the loop adds one to
  the skipped counter and leaves the created and the errors counter alone. When a directory
  above it gives no search permission, \<open>exists()\<close> raises \<open>PermissionError\<close>, which leaves
  \<open>create_test_file\<close>: no file is changed, the loop prints the error and adds one to the
  errors counter. In both cases the loop goes on with the remaining items, every one of
  which is counted once. The skipped counter is the one that an item with a present
  skeleton is counted in as well; the errors counter grows exactly when an exception leaves
  \<open>create_test_file\<close>.
\<close>

theorem missing_component_skipped:
  "read_text fs (component_path_of t) = Inl e \<Longrightarrow>
   (\<not> stat_denied (no_search fs) (component_path_of t) \<longrightarrow>
      create_test_file unicode_findall fs t = (Inr False, fs, [failure_message fs t e]) \<and>
      process_item unicode_findall (i, t) (fs, c, out) =
        (fs, c\<lparr>skipped := skipped c + 1\<rparr>, out @ [Processing i t, failure_message fs t e]) \<and>
      main_loop unicode_findall ((i, t) # rest) (fs, c, out) =
        main_loop unicode_findall rest
          (fs, c\<lparr>skipped := skipped c + 1\<rparr>,
           out @ [Processing i t, failure_message fs t e])) \<and>
   (stat_denied (no_search fs) (component_path_of t) \<longrightarrow>
      e = PermissionError \<and>
      create_test_file unicode_findall fs t = (Inl PermissionError, fs, []) \<and>
      process_item unicode_findall (i, t) (fs, c, out) =
        (fs, c\<lparr>errors := errors c + 1\<rparr>,
         out @ [Processing i t, ErrorMessage PermissionError]) \<and>
      main_loop unicode_findall ((i, t) # rest) (fs, c, out) =
        main_loop unicode_findall rest
          (fs, c\<lparr>errors := errors c + 1\<rparr>,
           out @ [Processing i t, ErrorMessage PermissionError])) \<and>
   (\<forall>fs' c' out'.
      main_loop unicode_findall ((i, t) # rest) (fs, c, out) = (fs', c', out') \<longrightarrow>
      created c' + skipped c' + errors c' =
        created c + skipped c + errors c + 1 + int (length rest)) \<and>
   (\<forall>fs2 t2. skeleton_present fs2 t2 \<longrightarrow>
      fst (snd (process_item unicode_findall (i, t2) (fs2, c, out))) =
        c\<lparr>skipped := skipped c + 1\<rparr>) \<and>
   (\<forall>fs2 t2. errors (fst (snd (process_item unicode_findall (i, t2) (fs2, c, out)))) =
      errors c +
      (case fst (create_test_file unicode_findall fs2 t2) of Inl e \<Rightarrow> 1 | Inr b \<Rightarrow> 0))"
proof (intro conjI allI impI)
  assume r: "read_text fs (component_path_of t) = Inl e"
  {
    assume s: "\<not> stat_denied (no_search fs) (component_path_of t)"
    show a: "create_test_file unicode_findall fs t = (Inr False, fs, [failure_message fs t e])"
      by (rule create_test_file_unreadable [OF r s])
    then show b: "process_item unicode_findall (i, t) (fs, c, out) =
       (fs, c\<lparr>skipped := skipped c + 1\<rparr>, out @ [Processing i t, failure_message fs t e])"
      by simp
    then show "main_loop unicode_findall ((i, t) # rest) (fs, c, out) =
       main_loop unicode_findall rest
         (fs, c\<lparr>skipped := skipped c + 1\<rparr>, out @ [Processing i t, failure_message fs t e])"
      by simp
  }
  {
    assume s: "stat_denied (no_search fs) (component_path_of t)"
    with r show "e = PermissionError" by (simp add: read_text_def)
    show a: "create_test_file unicode_findall fs t = (Inl PermissionError, fs, [])"
      by (rule create_test_file_denied [OF s])
    then show b: "process_item unicode_findall (i, t) (fs, c, out) =
        (fs, c\<lparr>errors := errors c + 1\<rparr>,
         out @ [Processing i t, ErrorMessage PermissionError])"
      by simp
    then show "main_loop unicode_findall ((i, t) # rest) (fs, c, out) =
        main_loop unicode_findall rest
          (fs, c\<lparr>errors := errors c + 1\<rparr>,
           out @ [Processing i t, ErrorMessage PermissionError])"
      by simp
  }
  {
    fix fs' c' out'
    assume "main_loop unicode_findall ((i, t) # rest) (fs, c, out) = (fs', c', out')"
    from main_loop_counts [OF this]
    show "created c' + skipped c' + errors c' =
        created c + skipped c + errors c + 1 + int (length rest)"
      by simp
  }
  {
    fix fs2 t2
    assume "skeleton_present fs2 t2"
    from process_item_skeleton_present [OF this, of unicode_findall i c out]
    show "fst (snd (process_item unicode_findall (i, t2) (fs2, c, out))) =
        c\<lparr>skipped := skipped c + 1\<rparr>"
      by auto
  }
  show "errors (fst (snd (process_item unicode_findall (i, t2) (fs2, c, out)))) =
      errors c +
      (case fst (create_test_file unicode_findall fs2 t2) of Inl e \<Rightarrow> 1 | Inr b \<Rightarrow> 0)"
    for fs2 t2
    by (rule process_item_errors)
qed

text \<open>
  The amended C7 on two disks. On \<open>unreadable_disk\<close> the first target cannot be read and
  its directory can be searched: the item is counted as skipped. On \<open>locked_disk\<close> the
  directory of the first target gives no search permission: the item is counted as an
  error.
\<close>

theorem missing_component_skipped_witness:
  "read_text unreadable_disk (component_path_of ''app/dev-resources/DevResourcesClient.tsx'') =
     Inl PermissionError \<and>
   create_test_file (\<lambda>pat s. []) unreadable_disk ''app/dev-resources/DevResourcesClient.tsx'' =
     (Inr False, unreadable_disk,
      [ErrorAnalyzing (BASEDIR @ ''/app/dev-resources/DevResourcesClient.tsx'')
         PermissionError]) \<and>
   process_item (\<lambda>pat s. []) (1, ''app/dev-resources/DevResourcesClient.tsx'')
     (unreadable_disk, \<lparr>created = 0, skipped = 0, errors = 0\<rparr>, [Banner]) =
     (unreadable_disk, \<lparr>created = 0, skipped = 1, errors = 0\<rparr>,
      [Banner, Processing 1 ''app/dev-resources/DevResourcesClient.tsx'',
       ErrorAnalyzing (BASEDIR @ ''/app/dev-resources/DevResourcesClient.tsx'')
         PermissionError]) \<and>
   read_text locked_disk (component_path_of ''app/dev-resources/DevResourcesClient.tsx'') =
     Inl PermissionError \<and>
   stat_denied (no_search locked_disk)
     (component_path_of ''app/dev-resources/DevResourcesClient.tsx'') \<and>
   process_item (\<lambda>pat s. []) (1, ''app/dev-resources/DevResourcesClient.tsx'')
     (locked_disk, \<lparr>created = 0, skipped = 0, errors = 0\<rparr>, [Banner]) =
     (locked_disk, \<lparr>created = 0, skipped = 0, errors = 1\<rparr>,
      [Banner, Processing 1 ''app/dev-resources/DevResourcesClient.tsx'',
       ErrorMessage PermissionError])"
proof -
  let ?t = "''app/dev-resources/DevResourcesClient.tsx''"
  have r: "read_text unreadable_disk (component_path_of ?t) = Inl PermissionError"
    by (simp add: unreadable_disk_def disk_eval path_eval)
  have s: "\<not> stat_denied (no_search unreadable_disk) (component_path_of ?t)"
    by (simp add: unreadable_disk_def disk_eval)
  have f: "failure_message unreadable_disk ?t PermissionError =
      ErrorAnalyzing (BASEDIR @ ''/app/dev-resources/DevResourcesClient.tsx'') PermissionError"
    by (simp add: failure_message_def unreadable_disk_def disk_eval path_eval)
  have d: "stat_denied (no_search locked_disk) (component_path_of ?t)"
    by (simp add: locked_disk_def component_path_of_def stat_denied_def ancestors_def
        path_eval)
  then have r2: "read_text locked_disk (component_path_of ?t) = Inl PermissionError"
    by (simp add: read_text_def)
  note t = missing_component_skipped
    [OF r, of "\<lambda>pat s. []" 1 "\<lparr>created = 0, skipped = 0, errors = 0\<rparr>" "[Banner]" "[]"]
  note t2 = missing_component_skipped
    [OF r2, of "\<lambda>pat s. []" 1 "\<lparr>created = 0, skipped = 0, errors = 0\<rparr>" "[Banner]" "[]"]
  from t s f have a: "create_test_file (\<lambda>pat s. []) unreadable_disk ?t =
     (Inr False, unreadable_disk,
      [ErrorAnalyzing (BASEDIR @ ''/app/dev-resources/DevResourcesClient.tsx'')
         PermissionError])"
    by simp
  from t s f have b: "process_item (\<lambda>pat s. []) (1, ?t)
     (unreadable_disk, \<lparr>created = 0, skipped = 0, errors = 0\<rparr>, [Banner]) =
     (unreadable_disk, \<lparr>created = 0, skipped = 1, errors = 0\<rparr>,
      [Banner, Processing 1 ?t,
       ErrorAnalyzing (BASEDIR @ ''/app/dev-resources/DevResourcesClient.tsx'')
         PermissionError])"
    by simp
  from t2 d have c: "process_item (\<lambda>pat s. []) (1, ?t)
     (locked_disk, \<lparr>created = 0, skipped = 0, errors = 0\<rparr>, [Banner]) =
     (locked_disk, \<lparr>created = 0, skipped = 0, errors = 1\<rparr>,
      [Banner, Processing 1 ?t, ErrorMessage PermissionError])"
    by simp
  from r a b r2 d c show ?thesis by (intro conjI)
qed

text \<open>
  C7, as the claim has it, fails: on the empty disk the first target is missing and is
  counted as skipped, exactly as it is on the disk where its skeleton is present; and the
  whole batch on the empty disk ends with 20 skipped and 0 errors.
\<close>

theorem missing_component_not_counted_apart:
  "read_text empty_disk (component_path_of ''app/dev-resources/DevResourcesClient.tsx'') =
     Inl FileNotFoundError \<and>
   skeleton_present skeleton_disk ''app/dev-resources/DevResourcesClient.tsx'' \<and>
   fst (snd (process_item (\<lambda>pat s. []) (1, ''app/dev-resources/DevResourcesClient.tsx'')
     (empty_disk, \<lparr>created = 0, skipped = 0, errors = 0\<rparr>, []))) =
     \<lparr>created = 0, skipped = 1, errors = 0\<rparr> \<and>
   fst (snd (process_item (\<lambda>pat s. []) (1, ''app/dev-resources/DevResourcesClient.tsx'')
     (skeleton_disk, \<lparr>created = 0, skipped = 0, errors = 0\<rparr>, []))) =
     \<lparr>created = 0, skipped = 1, errors = 0\<rparr> \<and>
   fst (snd (main (\<lambda>pat s. []) empty_disk)) = \<lparr>created = 0, skipped = 20, errors = 0\<rparr>"
proof -
  let ?t = "''app/dev-resources/DevResourcesClient.tsx''"
  have m: "read_text empty_disk (component_path_of ?t) = Inl FileNotFoundError"
    by (simp add: empty_disk_def read_text_def stat_denied_def list_ex_iff)
  have s: "skeleton_present skeleton_disk ?t"
    by (simp add: skeleton_disk_def disk_eval path_eval)
  have e: "create_test_file (\<lambda>pat s. []) empty_disk t =
      (Inr False, empty_disk, [ComponentNotFound (path_join BASEDIR t)])" for t
    by (simp add: create_test_file_def empty_disk_def exists_on_def stat_denied_def list_ex_iff)
  have 1: "fst (snd (process_item (\<lambda>pat s. []) (1, ?t)
     (empty_disk, \<lparr>created = 0, skipped = 0, errors = 0\<rparr>, []))) =
     \<lparr>created = 0, skipped = 1, errors = 0\<rparr>"
    by (simp add: e)
  have 2: "fst (snd (process_item (\<lambda>pat s. []) (1, ?t)
     (skeleton_disk, \<lparr>created = 0, skipped = 0, errors = 0\<rparr>, []))) =
     \<lparr>created = 0, skipped = 1, errors = 0\<rparr>"
    by (simp add: create_test_file_skeleton_present [OF s])
  have 3: "fst (snd (main (\<lambda>pat s. []) empty_disk)) =
      \<lparr>created = 0, skipped = 20, errors = 0\<rparr>"
    by (simp add: main_def TOP_20_COMPONENTS_def e)
  from m s 1 2 3 show ?thesis by (intro conjI)
qed

end
